theory Spec2Isabelle
  imports Complex_Main "HOL-Library.Log_Nat"
begin

section \<open>Python strings and paths\<close>

text \<open>
  A Python \<open>str\<close> is modelled as a \<^typ>\<open>string\<close> whose characters are the code points
  below 256 (Latin-1); file names, labels and tool output outside that range are not
  covered. The character classes below are the Unicode ones restricted to that range.
\<close>

definition isspace_char :: "char \<Rightarrow> bool" where
  \<comment> \<open>\<open>str.isspace\<close>: U+0009..U+000D, U+001C..U+001F, U+0020, U+0085, U+00A0\<close>
  "isspace_char c =
     (let n = (of_char c :: nat)
      in (9 \<le> n \<and> n \<le> 13) \<or> (28 \<le> n \<and> n \<le> 32) \<or> n = 133 \<or> n = 160)"

definition strip :: "string \<Rightarrow> string" where
  \<comment> \<open>\<open>s.strip()\<close>\<close>
  "strip s = rev (dropWhile isspace_char (rev (dropWhile isspace_char s)))"

definition isdecimal_char :: "char \<Rightarrow> bool" where
  \<comment> \<open>general category Nd: only the ASCII digits below 256\<close>
  "isdecimal_char c = (let n = (of_char c :: nat) in 48 \<le> n \<and> n \<le> 57)"

definition isdigit_char :: "char \<Rightarrow> bool" where
  \<comment> \<open>Numeric_Type Decimal or Digit: the ASCII digits and the superscripts
      U+00B2, U+00B3, U+00B9\<close>
  "isdigit_char c =
     (let n = (of_char c :: nat)
      in (48 \<le> n \<and> n \<le> 57) \<or> n = 178 \<or> n = 179 \<or> n = 185)"

definition isdigit :: "string \<Rightarrow> bool" where
  \<comment> \<open>\<open>s.isdigit()\<close>: false on the empty string\<close>
  "isdigit s = (s \<noteq> [] \<and> list_all isdigit_char s)"

fun split_on :: "char \<Rightarrow> string \<Rightarrow> string list" where
  \<comment> \<open>\<open>s.split(c)\<close> with a one-character separator: one more piece than separators\<close>
  "split_on c [] = [[]]"
| "split_on c (x # xs) =
     (if x = c then [] # split_on c xs
      else (case split_on c xs of [] \<Rightarrow> [[x]] | p # ps \<Rightarrow> (x # p) # ps))"

definition lower_char :: "char \<Rightarrow> char" where
  \<comment> \<open>\<open>str.lower\<close> on one code point below 256\<close>
  "lower_char c =
     (let n = (of_char c :: nat)
      in if (65 \<le> n \<and> n \<le> 90) \<or> (192 \<le> n \<and> n \<le> 222 \<and> n \<noteq> 215)
         then char_of (n + 32) else c)"

definition lower :: "string \<Rightarrow> string" where
  "lower s = map lower_char s"

fun starts_with :: "string \<Rightarrow> string \<Rightarrow> bool" where
  "starts_with s [] = True"
| "starts_with [] (p # ps) = False"
| "starts_with (x # xs) (p # ps) = (x = p \<and> starts_with xs ps)"

fun contains :: "string \<Rightarrow> string \<Rightarrow> bool" where
  \<comment> \<open>\<open>p in s\<close> for strings\<close>
  "contains [] p = (p = [])"
| "contains (x # xs) p = (starts_with (x # xs) p \<or> contains xs p)"

definition is_linebreak :: "char \<Rightarrow> bool" where
  \<comment> \<open>the line boundaries of \<open>str.splitlines\<close> below 256, carriage return apart\<close>
  "is_linebreak c =
     (let n = (of_char c :: nat)
      in n = 10 \<or> n = 11 \<or> n = 12 \<or> n = 28 \<or> n = 29 \<or> n = 30 \<or> n = 133)"

fun splitlines_from :: "string \<Rightarrow> string \<Rightarrow> string list" where
  \<comment> \<open>the second argument is the current line, reversed\<close>
  "splitlines_from [] cur = (if cur = [] then [] else [rev cur])"
| "splitlines_from (c # cs) cur =
     (if c = CHR 0x0D then
        (case cs of
           [] \<Rightarrow> [rev cur]
         | d # ds \<Rightarrow> if d = CHR 0x0A then rev cur # splitlines_from ds []
                    else rev cur # splitlines_from (d # ds) [])
      else if is_linebreak c then rev cur # splitlines_from cs []
      else splitlines_from cs (c # cur))"

definition splitlines :: "string \<Rightarrow> string list" where
  "splitlines s = splitlines_from s []"

definition digit_char :: "nat \<Rightarrow> char" where
  "digit_char d = char_of (48 + d)"

fun str_nat :: "nat \<Rightarrow> string" where
  \<comment> \<open>\<open>str(n)\<close> for a non-negative integer\<close>
  "str_nat n = (if n < 10 then [digit_char n] else str_nat (n div 10) @ [digit_char (n mod 10)])"

declare str_nat.simps [simp del]

definition str_int :: "int \<Rightarrow> string" where
  \<comment> \<open>\<open>str(i)\<close>, also what an f-string renders for an integer\<close>
  "str_int i = (if i < 0 then CHR ''-'' # str_nat (nat (- i)) else str_nat (nat i))"

definition digits_value :: "string \<Rightarrow> nat" where
  "digits_value s = foldl (\<lambda>acc c. 10 * acc + (of_char c - 48)) 0 s"

datatype exn =
    FileNotFoundError string
  | CalledProcessError int string
  | UnidentifiedImageError
  | ValueError
  | KeyError string
  | IndexError
  | TypeError
  | ZeroDivisionError
  | OverflowError
  | OtherError string

definition int_of_digit_str :: "nat \<Rightarrow> string \<Rightarrow> exn + int" where
  \<comment> \<open>\<open>int(s)\<close> for a string on which \<open>isdigit\<close> holds, the only strings the program
      converts: every character must be a decimal digit; the first argument is the
      interpreter's \<open>int_max_str_digits\<close> (0: no limit)\<close>
  "int_of_digit_str maxd s =
     (if s = [] \<or> \<not> list_all isdecimal_char s then Inl ValueError
      else if 0 < maxd \<and> maxd < length s then Inl ValueError
      else Inr (int (digits_value s)))"

fun rfind :: "char \<Rightarrow> string \<Rightarrow> nat option" where
  \<comment> \<open>\<open>s.rfind(c)\<close>, with None for -1\<close>
  "rfind c [] = None"
| "rfind c (x # xs) =
     (case rfind c xs of
        Some i \<Rightarrow> Some (Suc i)
      | None \<Rightarrow> if x = c then Some 0 else None)"

record pypath =
  path_parent :: string
  path_name :: string

definition str_path :: "pypath \<Rightarrow> string" where
  "str_path p = path_parent p @ ''/'' @ path_name p"

definition suffix :: "pypath \<Rightarrow> string" where
  \<comment> \<open>\<open>Path.suffix\<close>\<close>
  "suffix p =
     (let name = path_name p
      in case rfind CHR ''.'' name of
           None \<Rightarrow> []
         | Some i \<Rightarrow> if 0 < i \<and> i < length name - 1 then drop i name else [])"

definition stem :: "pypath \<Rightarrow> string" where
  \<comment> \<open>\<open>Path.stem\<close>\<close>
  "stem p =
     (let name = path_name p
      in case rfind CHR ''.'' name of
           None \<Rightarrow> name
         | Some i \<Rightarrow> if 0 < i \<and> i < length name - 1 then take i name else name)"

definition with_suffix :: "pypath \<Rightarrow> string \<Rightarrow> pypath" where
  \<comment> \<open>\<open>Path.with_suffix\<close> for a non-empty new suffix\<close>
  "with_suffix p sfx = p\<lparr>path_name := stem p @ sfx\<rparr>"

definition joinpath :: "string \<Rightarrow> string \<Rightarrow> string" where
  \<comment> \<open>\<open>str(d / n)\<close> for a relative name \<open>n\<close>\<close>
  "joinpath d n = d @ ''/'' @ n"

section \<open>Dictionaries in insertion order\<close>

fun dict_set :: "('k \<times> 'v) list \<Rightarrow> 'k \<Rightarrow> 'v \<Rightarrow> ('k \<times> 'v) list" where
  \<comment> \<open>\<open>d[k] = v\<close>: an existing key keeps its position\<close>
  "dict_set [] k v = [(k, v)]"
| "dict_set ((k', v') # d) k v = (if k' = k then (k, v) # d else (k', v') # dict_set d k v)"

fun dict_update :: "('k \<times> 'v) list \<Rightarrow> ('k \<times> 'v) list \<Rightarrow> ('k \<times> 'v) list" where
  \<comment> \<open>\<open>d.update(other)\<close>\<close>
  "dict_update d [] = d"
| "dict_update d ((k, v) # other) = dict_update (dict_set d k v) other"

section \<open>The processing log\<close>

text \<open>
  The program's log lines are f-strings holding pictographs; each template is one
  constructor below, carrying the values the template interpolates. A log prefix handed
  to \<open>run_command\<close> is a template of its own.
\<close>

datatype prefix =
    PfxSips                 \<comment> \<open>four blanks, the HEIC conversion\<close>
  | PfxProbe                \<comment> \<open>"Checking the video stream:"\<close>
  | PfxConversion string    \<comment> \<open>"Conversion to \{target_format\}:"\<close>
  | PfxPoster               \<comment> \<open>"Creating a poster:"\<close>
  | PfxVersion string       \<comment> \<open>"Version created \{height\}p" and "... full_size"\<close>
  | PfxCompressed string    \<comment> \<open>"Compressed version created \{height\}p" and "... full_size"\<close>

datatype msg =
    CmdCompleted prefix                 \<comment> \<open>"\{log_prefix\} Completed"\<close>
  | DebugCommand "string list" string   \<comment> \<open>"[DEBUG] Command: ... Output: ..."\<close>
  | ToolNotFound string                 \<comment> \<open>"CRITICAL ERROR: Not found ..."\<close>
  | CmdError prefix string              \<comment> \<open>"\{log_prefix\} ERROR: \{last line\}"\<close>
  | DebugError "string list" string     \<comment> \<open>"[DEBUG_ERROR] Command: ... Full Error: ..."\<close>
  | HeicConversion string               \<comment> \<open>"Conversion HEIC -> PNG (via sips): \{name\}"\<close>
  | AudioProcessing string              \<comment> \<open>"Audio processing: \{name\}"\<close>
  | AudioCompleted string               \<comment> \<open>"Audio \{name\} completed."\<close>
  | AudioError string exn               \<comment> \<open>"Audio processing error \{name\}: \{e\}"\<close>
  | Traceback exn                       \<comment> \<open>\<open>traceback.format_exc()\<close>\<close>
  | SkippingUnsupported string          \<comment> \<open>"Skipping an unsupported file: \{name\}"\<close>
  | OutputDirNotSet                     \<comment> \<open>"Critical ERROR: Working folder for results not set."\<close>
  | SelectedDimensions "string list"    \<comment> \<open>"Selected dimensions for processing: \{keys\}"\<close>
  | ImageProcessing string              \<comment> \<open>"Image processing: \{name\}"\<close>
  | Unrecognized string                 \<comment> \<open>"Error: Unable to recognize '\{name\}'."\<close>
  | ResizedCreated                      \<comment> \<open>"Resized versions created"\<close>
  | Created string                      \<comment> \<open>"Created: \{full_size_name\}"\<close>
  | CreatingCompressed int              \<comment> \<open>"Creating compressed versions (quality: \{q\})"\<close>
  | CompressedCreated                   \<comment> \<open>"Compressed versions created"\<close>
  | Done string                         \<comment> \<open>"Done: \{name\}"\<close>
  | ConvertFailed string                \<comment> \<open>"Error: Failed to convert'\{name\}'."\<close>
  | UnknownProcessingError string exn   \<comment> \<open>"Unknown processing error \{name\}: \{e\}"\<close>
  | SelectedVideoSizes "string list"    \<comment> \<open>"Selected video sizes: \{keys\}"\<close>
  | VideoProcessing string              \<comment> \<open>"Video processing: \{name\}"\<close>
  | CreatingStandard int string         \<comment> \<open>"Creating standard versions (crf=.., preset=..)"\<close>
  | CreatingCompressedVideo int string  \<comment> \<open>"Creating compressed versions (crf=.., preset=..)"\<close>
  | VideoProcessed string               \<comment> \<open>"Video \{name\} processed."\<close>
  | VideoError string exn               \<comment> \<open>"Video processing error \{name\}: \{e\}"\<close>
  | InvalidCustomSize                   \<comment> \<open>"Error: Invalid custom size format."\<close>
  | TaskError string exn                \<comment> \<open>"Task \{job_id\} ended with an error: \{e\}"\<close>
  | Uploaded string                     \<comment> \<open>"Uploaded: \{filename\}"\<close>
  | NewSession                          \<comment> \<open>"--- New processing session ---"\<close>

record logs =
  processing_log :: "msg list"   \<comment> \<open>the global \<open>processing_log\<close>\<close>
  printed :: "msg list"          \<comment> \<open>what \<open>print\<close> wrote to standard output\<close>

definition log_message :: "msg \<Rightarrow> string \<Rightarrow> 'a logs_scheme \<Rightarrow> 'a logs_scheme" where
  "log_message message level s =
     (if level = ''info'' then
        s\<lparr>printed := printed s @ [message], processing_log := processing_log s @ [message]\<rparr>
      else if level = ''debug'' then s\<lparr>printed := printed s @ [message]\<rparr>
      else s)"

definition status :: "'a logs_scheme \<Rightarrow> msg list" where
  \<comment> \<open>the log snapshot the \<open>/status\<close> route returns\<close>
  "status s = processing_log s"

definition clear_log :: "'a logs_scheme \<Rightarrow> 'a logs_scheme" where
  "clear_log s = s\<lparr>processing_log := [NewSession]\<rparr>"

section \<open>Effects, exceptions and the outside world\<close>

text \<open>
  A statement of the program takes the state and returns the new state with either the
  exception it raised (\<open>Inl\<close>) or its value (\<open>Inr\<close>); what was logged or run before a
  raise stays in the state.
\<close>

type_synonym ('s, 'a) prog = "'s \<Rightarrow> (exn + 'a) \<times> 's"

definition returnE :: "'a \<Rightarrow> ('s, 'a) prog" where
  "returnE x s = (Inr x, s)"

definition raiseE :: "exn \<Rightarrow> ('s, 'a) prog" where
  "raiseE e s = (Inl e, s)"

definition bindE :: "('s, 'a) prog \<Rightarrow> ('a \<Rightarrow> ('s, 'b) prog) \<Rightarrow> ('s, 'b) prog" where
  "bindE m f s = (case m s of (Inl e, s') \<Rightarrow> (Inl e, s') | (Inr x, s') \<Rightarrow> f x s')"

definition thenE :: "('s, 'a) prog \<Rightarrow> ('s, 'b) prog \<Rightarrow> ('s, 'b) prog" where
  "thenE m n = bindE m (\<lambda>_. n)"

definition logE :: "msg \<Rightarrow> string \<Rightarrow> ('a logs_scheme, unit) prog" where
  "logE message level s = (Inr (), log_message message level s)"

definition whenE :: "bool \<Rightarrow> ('s, unit) prog \<Rightarrow> ('s, unit) prog" where
  "whenE b m = (if b then m else returnE ())"

fun for_each :: "'a list \<Rightarrow> ('a \<Rightarrow> ('s, unit) prog) \<Rightarrow> ('s, unit) prog" where
  "for_each [] body s = (Inr (), s)"
| "for_each (x # xs) body s =
     (case body x s of (Inl e, s') \<Rightarrow> (Inl e, s') | (Inr _, s') \<Rightarrow> for_each xs body s')"

datatype proc =
    Exited int string string   \<comment> \<open>return code, standard output, standard error\<close>
  | Raised exn                 \<comment> \<open>\<open>subprocess.run\<close> raised before the tool ran\<close>

record settings =
  image_format :: string
  video_format :: string
  compression_mode :: string
  custom_sizes :: string
  sizes_to_process :: "string list"
  include_retina :: bool

text \<open>
  \<open>config.yml\<close> is not part of the sources: its entries are parameters. A size map is
  the dictionary \<open>profile.get('sizes', {})\<close> or \<open>profile.get('heights_map', {})\<close> in
  file order; a missing compression entry is \<open>None\<close> and takes the default written in the
  code.
\<close>

record config =
  image_sizes :: "(string \<times> int) list"
  heights_map :: "(string \<times> int) list"
  image_standard_quality :: "int option"
  image_max_quality :: "int option"
  video_standard_crf :: "int option"
  video_standard_preset :: "string option"
  video_max_crf :: "int option"
  video_max_preset :: "string option"

datatype save_params = Quality int | Optimize

record 'img saved_file =
  save_path :: string
  save_image :: 'img
  save_format :: string
  save_options :: save_params

record 'img env =
  FFMPEG_CMD :: string
  FFPROBE_CMD :: string
  platform :: string                                  \<comment> \<open>\<open>sys.platform\<close>\<close>
  OUTPUT_DIR :: "string option"                       \<comment> \<open>\<open>app.config.get('OUTPUT_DIR')\<close>\<close>
  cfg :: config                                       \<comment> \<open>the global \<open>config\<close>\<close>
  int_max_str_digits :: nat
  subprocess_run :: "string list \<Rightarrow> proc"
  mkdir :: "string \<Rightarrow> exn option"                    \<comment> \<open>\<open>mkdir(exist_ok=True)\<close>: what it raises\<close>
  path_exists :: "string \<Rightarrow> bool"
  image_open :: "string \<Rightarrow> string \<Rightarrow> exn + 'img"       \<comment> \<open>\<open>Image.open(path).convert(mode)\<close>\<close>
  image_width :: "'img \<Rightarrow> int"
  image_height :: "'img \<Rightarrow> int"
  image_resize :: "'img \<Rightarrow> int \<Rightarrow> int \<Rightarrow> exn + 'img"  \<comment> \<open>\<open>img.resize((w, h), LANCZOS)\<close>\<close>
  image_save :: "'img saved_file \<Rightarrow> exn option"       \<comment> \<open>what \<open>save\<close> raises, if anything\<close>

record 'img world = logs +
  ran :: "string list list"          \<comment> \<open>every command handed to \<open>subprocess.run\<close>, in order\<close>
  made_dirs :: "string list"         \<comment> \<open>directories \<open>mkdir\<close> was asked for and did not refuse\<close>
  saved :: "'img saved_file list"    \<comment> \<open>files written by \<open>save\<close>, in order\<close>
  unlinked :: "string list"          \<comment> \<open>files removed by \<open>unlink\<close>\<close>

definition SIPS_CMD :: string where
  "SIPS_CMD = ''sips''"

definition SUPPORTED_IMAGE_FORMATS :: "string list" where
  "SUPPORTED_IMAGE_FORMATS = [''.webp'', ''.jpg'', ''.jpeg'', ''.png'', ''.tiff'', ''.heic'']"

definition SUPPORTED_AV_FORMATS :: "string list" where
  "SUPPORTED_AV_FORMATS =
     [''.mp4'', ''.mov'', ''.webm'', ''.mkv'', ''.avi'', ''.m4v'', ''.m4a'', ''.mp3'', ''.aac'',
      ''.wav'', ''.flac'']"

definition FORMAT_MAPPING :: "(string \<times> string) list" where
  "FORMAT_MAPPING =
     [(''webp'', ''WEBP''), (''jpg'', ''JPEG''), (''jpeg'', ''JPEG''), (''png'', ''PNG'')]"

definition VIDEO_CODECS :: "(string \<times> string) list" where
  "VIDEO_CODECS = [(''mp4'', ''libx264''), (''webm'', ''libvpx-vp9'')]"

definition AUDIO_CODECS :: "(string \<times> string) list" where
  "AUDIO_CODECS = [(''mp3'', ''libmp3lame''), (''aac'', ''aac''), (''opus'', ''libopus'')]"

definition subscript :: "(string \<times> 'v) list \<Rightarrow> string \<Rightarrow> ('s, 'v) prog" where
  \<comment> \<open>\<open>d[k]\<close>\<close>
  "subscript d k = (case map_of d k of None \<Rightarrow> raiseE (KeyError k) | Some v \<Rightarrow> returnE v)"

definition get_or :: "(string \<times> 'v) list \<Rightarrow> string \<Rightarrow> 'v \<Rightarrow> 'v" where
  \<comment> \<open>\<open>d.get(k, default)\<close>\<close>
  "get_or d k dflt = (case map_of d k of None \<Rightarrow> dflt | Some v \<Rightarrow> v)"

definition mkdirE :: "'img env \<Rightarrow> string \<Rightarrow> ('img world, unit) prog" where
  "mkdirE env d s =
     (case mkdir env d of
        Some e \<Rightarrow> (Inl e, s)
      | None \<Rightarrow> (Inr (), s\<lparr>made_dirs := made_dirs s @ [d]\<rparr>))"

section \<open>The external tool invoker\<close>

definition called_process_error ::
  "string list \<Rightarrow> prefix \<Rightarrow> int \<Rightarrow> string \<Rightarrow> ('img world, string) prog" where
  \<comment> \<open>the handler \<open>except subprocess.CalledProcessError as e\<close> of \<open>run_command\<close>; the last
      line of an all-blank diagnostic stream is an \<open>IndexError\<close>, raised before anything
      is logged\<close>
  "called_process_error command log_prefix rc err =
     (if err \<noteq> [] then
        (case splitlines (strip err) of
           [] \<Rightarrow> raiseE IndexError
         | l # ls \<Rightarrow>
             thenE (logE (CmdError log_prefix (last (l # ls))) ''info'')
            (thenE (logE (DebugError command err) ''debug'')
                   (raiseE (CalledProcessError rc err))))
      else
        thenE (logE (CmdError log_prefix ''Unknown error'') ''info'')
       (thenE (logE (DebugError command err) ''debug'')
              (raiseE (CalledProcessError rc err))))"

definition run_command :: "'img env \<Rightarrow> string list \<Rightarrow> prefix \<Rightarrow> ('img world, string) prog" where
  "run_command env command log_prefix s =
     (case command of
        [] \<Rightarrow> (Inl IndexError, s)
      | c0 # args \<Rightarrow>
          (let command' =
                 (if c0 = FFMPEG_CMD env then c0 # ''-loglevel'' # ''error'' # args else command);
               s1 = s\<lparr>ran := ran s @ [command']\<rparr>
           in (case subprocess_run env command' of
                 Exited rc out err \<Rightarrow>
                   (if rc = 0 then
                      thenE (logE (CmdCompleted log_prefix) ''info'')
                     (thenE (logE (DebugCommand command' (strip err)) ''debug'')
                            (returnE out)) s1
                    else called_process_error command' log_prefix rc err s1)
               | Raised (FileNotFoundError f) \<Rightarrow>
                   thenE (logE (ToolNotFound c0) ''info'') (raiseE (FileNotFoundError f)) s1
               | Raised (CalledProcessError rc err) \<Rightarrow>
                   called_process_error command' log_prefix rc err s1
               | Raised e \<Rightarrow> (Inl e, s1))))"

section \<open>The format classifier and the audio producer\<close>

definition has_video_stream :: "'img env \<Rightarrow> pypath \<Rightarrow> 'img world \<Rightarrow> bool \<times> 'img world" where
  "has_video_stream env file_path s =
     (let cmd = [FFPROBE_CMD env, ''-v'', ''error'', ''-select_streams'', ''v:0'',
                 ''-show_entries'', ''stream=codec_type'', ''-of'', ''json'', str_path file_path]
      in case run_command env cmd PfxProbe s of
           (Inr output, s') \<Rightarrow> (contains output ''video'', s')
         | (Inl e, s') \<Rightarrow> (False, s'))"

definition audio_body :: "'img env \<Rightarrow> pypath \<Rightarrow> settings \<Rightarrow> ('img world, unit) prog" where
  \<comment> \<open>the \<open>try\<close> block of \<open>process_audio_only\<close>\<close>
  "audio_body env file_path user_settings =
     (let target_format = ''mp3''; base_name = stem file_path
      in thenE (logE (AudioProcessing (path_name file_path)) ''info'')
        (case OUTPUT_DIR env of
           None \<Rightarrow> raiseE TypeError
         | Some output_dir \<Rightarrow>
             let file_output_folder = joinpath output_dir base_name
             in thenE (mkdirE env file_output_folder)
               (bindE (subscript AUDIO_CODECS target_format) (\<lambda>codec.
                  let cmd = [FFMPEG_CMD env, ''-i'', str_path file_path, ''-c:a'', codec,
                             ''-q:a'', ''2'',
                             joinpath file_output_folder (base_name @ ''.'' @ target_format),
                             ''-y'']
                  in thenE (run_command env cmd (PfxConversion target_format))
                           (logE (AudioCompleted (path_name file_path)) ''info'')))))"

definition process_audio_only :: "'img env \<Rightarrow> pypath \<Rightarrow> settings \<Rightarrow> ('img world, unit) prog" where
  "process_audio_only env file_path user_settings s =
     (case audio_body env file_path user_settings s of
        (Inr u, s') \<Rightarrow> (Inr (), s')
      | (Inl e, s') \<Rightarrow>
          thenE (logE (AudioError (path_name file_path) e) ''info'')
                (logE (Traceback e) ''debug'') s')"

section \<open>The variant planner\<close>

fun custom_entries :: "nat \<Rightarrow> string list \<Rightarrow> (string \<times> int) list \<Rightarrow> exn + (string \<times> int) list" where
  \<comment> \<open>the dictionary comprehension of \<open>get_custom_sizes\<close>, token by token\<close>
  "custom_entries maxd [] d = Inr d"
| "custom_entries maxd (t # ts) d =
     (if isdigit (strip t) then
        (case int_of_digit_str maxd (strip t) of
           Inl e \<Rightarrow> Inl e
         | Inr v \<Rightarrow> custom_entries maxd ts (dict_set d (''custom_'' @ strip t @ ''px'') v))
      else custom_entries maxd ts d)"

definition get_custom_sizes ::
  "'img env \<Rightarrow> string \<Rightarrow> ('a logs_scheme, (string \<times> int) list) prog" where
  "get_custom_sizes env custom_sizes_str s =
     (if custom_sizes_str \<noteq> [] then
        (case custom_entries (int_max_str_digits env) (split_on CHR '','' custom_sizes_str) [] of
           Inr d \<Rightarrow> (Inr d, s)
         | Inl ValueError \<Rightarrow> (Inr [], log_message InvalidCustomSize ''info'' s)
         | Inl e \<Rightarrow> (Inl e, s))
      else (Inr [], s))"

definition selected_sizes :: "(string \<times> int) list \<Rightarrow> string list \<Rightarrow> (string \<times> int) list" where
  \<comment> \<open>\<open>{key: val for key, val in sizes.items() if key in selected_sizes_keys}\<close>\<close>
  "selected_sizes sizes selected_sizes_keys = filter (\<lambda>(key, val). key \<in> set selected_sizes_keys) sizes"

definition plan_sizes ::
  "'img env \<Rightarrow> (string \<times> int) list \<Rightarrow> settings \<Rightarrow> ('a logs_scheme, (string \<times> int) list) prog" where
  \<comment> \<open>the selected presets, updated with the custom sizes\<close>
  "plan_sizes env profile user_settings =
     bindE (get_custom_sizes env (custom_sizes user_settings)) (\<lambda>custom.
       returnE (dict_update (selected_sizes profile (sizes_to_process user_settings)) custom))"

section \<open>The video producer\<close>

definition poster_cmd :: "'img env \<Rightarrow> pypath \<Rightarrow> string \<Rightarrow> string list" where
  "poster_cmd env file_path file_output_folder =
     [FFMPEG_CMD env, ''-i'', str_path file_path, ''-ss'', ''00:00:01'', ''-vframes'', ''1'',
      ''-vf'', ''scale=640:-1'', ''-q:v'', ''2'',
      joinpath file_output_folder (stem file_path @ ''_poster.webp''), ''-y'']"

definition scaled_cmd ::
  "'img env \<Rightarrow> pypath \<Rightarrow> string \<Rightarrow> string \<Rightarrow> string \<Rightarrow> int \<Rightarrow> string \<Rightarrow> int \<Rightarrow> string \<Rightarrow> string list" where
  "scaled_cmd env file_path video_codec audio_codec preset crf out_name height file_output_folder =
     [FFMPEG_CMD env, ''-i'', str_path file_path, ''-vf'', ''scale=-2:'' @ str_int height,
      ''-c:v'', video_codec, ''-preset'', preset, ''-crf'', str_int crf, ''-c:a'', audio_codec,
      ''-b:a'', ''128k'', joinpath file_output_folder out_name, ''-y'']"

definition full_size_cmd ::
  "'img env \<Rightarrow> pypath \<Rightarrow> string \<Rightarrow> string \<Rightarrow> string \<Rightarrow> int \<Rightarrow> string \<Rightarrow> string \<Rightarrow> string list" where
  "full_size_cmd env file_path video_codec audio_codec preset crf out_name file_output_folder =
     [FFMPEG_CMD env, ''-i'', str_path file_path, ''-c:v'', video_codec, ''-preset'', preset,
      ''-crf'', str_int crf, ''-c:a'', audio_codec, ''-b:a'', ''192k'',
      joinpath file_output_folder out_name, ''-y'']"

definition opt_or :: "'a option \<Rightarrow> 'a \<Rightarrow> 'a" where
  \<comment> \<open>\<open>d.get(key, default)\<close> on an entry of \<open>config.yml\<close>\<close>
  "opt_or v dflt = (case v of None \<Rightarrow> dflt | Some x \<Rightarrow> x)"

definition video_tier ::
  "'img env \<Rightarrow> pypath \<Rightarrow> string \<Rightarrow> string \<Rightarrow> (string \<times> int) list \<Rightarrow> bool \<Rightarrow> string \<Rightarrow> int \<Rightarrow> bool
     \<Rightarrow> ('img world, unit) prog" where
  \<comment> \<open>the renditions of one compression tier: one per selected height, then the full
      size; the code writes this block twice, the second time with the \<open>_compressed\<close>
      names and log prefixes\<close>
  "video_tier env file_path file_output_folder target_format heights_to_process include_full_size
     preset crf compressed =
     (let base_name = stem file_path;
          video_codec = get_or VIDEO_CODECS target_format ''libx264'';
          audio_codec = (if target_format = ''webm'' then ''libopus'' else ''aac'');
          tag = (if compressed then ''_compressed'' else []);
          pfx = (if compressed then PfxCompressed else PfxVersion)
      in thenE
           (whenE (heights_to_process \<noteq> [])
              (for_each heights_to_process (\<lambda>(size_label, height).
                 thenE (run_command env
                          (scaled_cmd env file_path video_codec audio_codec preset crf
                             (base_name @ ''_'' @ size_label @ tag @ ''.'' @ target_format)
                             height file_output_folder)
                          (pfx (str_int height @ ''p'')))
                       (returnE ()))))
           (whenE include_full_size
              (thenE (run_command env
                        (full_size_cmd env file_path video_codec audio_codec preset crf
                           (base_name @ ''_full_size'' @ tag @ ''.'' @ target_format)
                           file_output_folder)
                        (pfx ''full_size''))
                     (returnE ()))))"

definition video_renditions ::
  "'img env \<Rightarrow> pypath \<Rightarrow> string \<Rightarrow> settings \<Rightarrow> (string \<times> int) list \<Rightarrow> ('img world, unit) prog" where
  \<comment> \<open>\<open>process_video\<close> from the poster to its last log line\<close>
  "video_renditions env file_path file_output_folder user_settings heights_to_process =
     (let target_format = video_format user_settings;
          include_full_size = (''full_size'' \<in> set (sizes_to_process user_settings));
          std_crf = opt_or (video_standard_crf (cfg env)) 23;
          std_preset = opt_or (video_standard_preset (cfg env)) ''medium'';
          max_crf = opt_or (video_max_crf (cfg env)) 28;
          max_preset = opt_or (video_max_preset (cfg env)) ''slow''
      in thenE (run_command env (poster_cmd env file_path file_output_folder) PfxPoster)
        (thenE (logE (CreatingStandard std_crf std_preset) ''info'')
        (thenE (video_tier env file_path file_output_folder target_format heights_to_process
                  include_full_size std_preset std_crf False)
        (thenE (whenE (compression_mode user_settings = ''max_compression'')
                  (thenE (logE (CreatingCompressedVideo max_crf max_preset) ''info'')
                         (video_tier env file_path file_output_folder target_format
                            heights_to_process include_full_size max_preset max_crf True)))
               (logE (VideoProcessed (path_name file_path)) ''info'')))))"

definition video_body ::
  "'img env \<Rightarrow> string \<Rightarrow> pypath \<Rightarrow> (string \<times> int) list \<Rightarrow> settings \<Rightarrow> ('img world, unit) prog" where
  \<comment> \<open>the \<open>try\<close> block of \<open>process_video\<close>\<close>
  "video_body env output_dir file_path profile user_settings =
     bindE (plan_sizes env profile user_settings) (\<lambda>heights_to_process.
       thenE (logE (SelectedVideoSizes (map fst heights_to_process)) ''info'')
      (thenE (mkdirE env (joinpath output_dir (stem file_path)))
      (thenE (logE (VideoProcessing (path_name file_path)) ''info'')
             (video_renditions env file_path (joinpath output_dir (stem file_path))
                user_settings heights_to_process))))"

definition process_video ::
  "'img env \<Rightarrow> pypath \<Rightarrow> (string \<times> int) list \<Rightarrow> settings \<Rightarrow> ('img world, unit) prog" where
  "process_video env file_path profile user_settings s =
     (case OUTPUT_DIR env of
        None \<Rightarrow> logE OutputDirNotSet ''info'' s
      | Some output_dir \<Rightarrow>
          (case video_body env output_dir file_path profile user_settings s of
             (Inr u, s') \<Rightarrow> (Inr (), s')
           | (Inl e, s') \<Rightarrow>
               thenE (logE (VideoError (path_name file_path) e) ''info'')
                     (logE (Traceback e) ''debug'') s'))"

section \<open>Floating point\<close>

text \<open>
  A Python \<open>float\<close> is an IEEE 754 double; a finite one is modelled by the rational it
  denotes. \<open>to_double\<close> rounds a rational to the nearest double, ties to even, with
  the gradual underflow of the format; a magnitude that rounds to \<open>2 ^ 1024\<close> or more
  has no finite double. Integer true division, the conversion of an integer to a float
  and the product of two floats are each the exact result rounded once.
\<close>

definition pow2 :: "int \<Rightarrow> rat" where
  "pow2 k = (if 0 \<le> k then 2 ^ nat k else 1 / 2 ^ nat (- k))"

definition round_half_even :: "rat \<Rightarrow> int" where
  "round_half_even x =
     (let f = \<lfloor>x\<rfloor>; r = x - of_int f
      in if r < 1 / 2 then f else if 1 / 2 < r then f + 1 else if even f then f else f + 1)"

definition binade :: "rat \<Rightarrow> int" where
  \<comment> \<open>the \<open>k\<close> with \<open>2 ^ k \<le> |x| < 2 ^ (k + 1)\<close>, for \<open>x \<noteq> 0\<close>\<close>
  "binade x =
     (let (p, q) = quotient_of \<bar>x\<bar>; k = bitlen p - bitlen q
      in if pow2 k \<le> \<bar>x\<bar> then k else k - 1)"

definition to_double :: "rat \<Rightarrow> exn + rat" where
  "to_double x =
     (if x = 0 then Inr 0
      else let e = max (binade x - 52) (- 1074);
               y = of_int (round_half_even (\<bar>x\<bar> / pow2 e)) * pow2 e
           in if pow2 1024 \<le> y then Inl OverflowError else Inr (sgn x * y))"

definition int_of_float :: "rat \<Rightarrow> int" where
  \<comment> \<open>\<open>int(y)\<close>: towards zero\<close>
  "int_of_float y = (if 0 \<le> y then \<lfloor>y\<rfloor> else \<lceil>y\<rceil>)"

definition scaled_height :: "int \<Rightarrow> int \<Rightarrow> int \<Rightarrow> int \<Rightarrow> exn + int" where
  \<comment> \<open>\<open>int(img.height * (base_width * density / img.width))\<close>: the division raises on a
      zero width; the infinite product of an overflow cannot be converted\<close>
  "scaled_height height base_width density width =
     (if width = 0 then Inl ZeroDivisionError
      else case to_double (of_int (base_width * density) / of_int width) of
             Inl e \<Rightarrow> Inl e
           | Inr ratio \<Rightarrow>
               (case to_double (of_int height) of
                  Inl e \<Rightarrow> Inl e
                | Inr h \<Rightarrow>
                    (case to_double (h * ratio) of
                       Inl e \<Rightarrow> Inl e
                     | Inr y \<Rightarrow> Inr (int_of_float y))))"

section \<open>The image producer\<close>

definition new_file_name :: "string \<Rightarrow> string \<Rightarrow> int \<Rightarrow> string \<Rightarrow> string" where
  "new_file_name base_name size_label density target_format =
     base_name @ ''_'' @ size_label @ ''@'' @ str_int density @ ''x.'' @ target_format"

definition comp_file_name :: "string \<Rightarrow> string \<Rightarrow> int \<Rightarrow> string \<Rightarrow> string" where
  "comp_file_name base_name size_label density target_format =
     base_name @ ''_'' @ size_label @ ''@'' @ str_int density @ ''x_compressed.'' @ target_format"

definition full_size_name :: "string \<Rightarrow> string \<Rightarrow> string" where
  "full_size_name base_name target_format = base_name @ ''_full_size.'' @ target_format"

definition full_size_comp_name :: "string \<Rightarrow> string \<Rightarrow> string" where
  "full_size_comp_name base_name target_format =
     base_name @ ''_full_size_compressed.'' @ target_format"

definition save_params_for :: "string \<Rightarrow> int \<Rightarrow> save_params" where
  \<comment> \<open>\<open>{'quality': q}\<close>, replaced by \<open>{'optimize': True}\<close> for PNG\<close>
  "save_params_for target_format quality =
     (if target_format = ''png'' then Optimize else Quality quality)"

definition saveE ::
  "'img env \<Rightarrow> 'img \<Rightarrow> string \<Rightarrow> string \<Rightarrow> save_params \<Rightarrow> ('img world, unit) prog" where
  \<comment> \<open>\<open>im.save(path, FORMAT_MAPPING[target_format], **save_params)\<close>\<close>
  "saveE env im path target_format params =
     bindE (subscript FORMAT_MAPPING target_format) (\<lambda>format s.
       let file = \<lparr>save_path = path, save_image = im, save_format = format,
                   save_options = params\<rparr>
       in case image_save env file of
            Some e \<Rightarrow> (Inl e, s)
          | None \<Rightarrow> (Inr (), s\<lparr>saved := saved s @ [file]\<rparr>))"

definition render_variant ::
  "'img env \<Rightarrow> 'img \<Rightarrow> string \<Rightarrow> string \<Rightarrow> save_params \<Rightarrow> string \<Rightarrow> int \<Rightarrow> int
     \<Rightarrow> ('img world, unit) prog" where
  \<comment> \<open>the body of the two nested loops: the size is computed from the decoded image
      \<open>img\<close>, and \<open>img\<close> is what is resized\<close>
  "render_variant env img file_output_folder target_format params file_name base_width density =
     (let new_width = base_width * density
      in case scaled_height (image_height env img) base_width density (image_width env img) of
           Inl e \<Rightarrow> raiseE e
         | Inr new_height \<Rightarrow>
             (case image_resize env img new_width new_height of
                Inl e \<Rightarrow> raiseE e
              | Inr resized_img \<Rightarrow>
                  saveE env resized_img (joinpath file_output_folder file_name) target_format
                    params))"

definition standard_renders ::
  "'img env \<Rightarrow> 'img \<Rightarrow> string \<Rightarrow> string \<Rightarrow> string \<Rightarrow> (string \<times> int) list \<Rightarrow> int list \<Rightarrow> bool
     \<Rightarrow> ('img world, unit) prog" where
  "standard_renders env img file_output_folder base_name target_format sizes densities
     include_full_size =
     (let std_quality = opt_or (image_standard_quality (cfg env)) 85
      in thenE
           (whenE (sizes \<noteq> [])
              (thenE
                 (for_each sizes (\<lambda>(size_label, base_width).
                    for_each densities (\<lambda>density.
                      render_variant env img file_output_folder target_format
                        (save_params_for target_format std_quality)
                        (new_file_name base_name size_label density target_format)
                        base_width density)))
                 (logE ResizedCreated ''info'')))
           (whenE include_full_size
              (thenE
                 (saveE env img
                    (joinpath file_output_folder (full_size_name base_name target_format))
                    target_format (save_params_for target_format std_quality))
                 (logE (Created (full_size_name base_name target_format)) ''info''))))"

definition compressed_renders ::
  "'img env \<Rightarrow> 'img \<Rightarrow> string \<Rightarrow> string \<Rightarrow> string \<Rightarrow> (string \<times> int) list \<Rightarrow> int list \<Rightarrow> bool
     \<Rightarrow> ('img world, unit) prog" where
  \<comment> \<open>the block under \<open>if compression_mode == 'max_compression'\<close>\<close>
  "compressed_renders env img file_output_folder base_name target_format sizes densities
     include_full_size =
     (let comp_quality = opt_or (image_max_quality (cfg env)) 75
      in thenE (logE (CreatingCompressed comp_quality) ''info'')
        (thenE
           (whenE (sizes \<noteq> [])
              (for_each sizes (\<lambda>(size_label, base_width).
                 for_each densities (\<lambda>density.
                   render_variant env img file_output_folder target_format
                     (save_params_for target_format comp_quality)
                     (comp_file_name base_name size_label density target_format)
                     base_width density))))
        (thenE
           (whenE include_full_size
              (saveE env img
                 (joinpath file_output_folder (full_size_comp_name base_name target_format))
                 target_format (save_params_for target_format comp_quality)))
           (logE CompressedCreated ''info''))))"

datatype flow = Completed | Returned

definition with_prepared_image ::
  "'img env \<Rightarrow> pypath \<Rightarrow> (pypath \<Rightarrow> ('img world, flow) prog) \<Rightarrow> ('img world, flow) prog" where
  \<comment> \<open>\<open>with prepare_image_path(file_path) as image_to_process: body\<close>; the \<open>finally\<close>
      clause runs on every way out\<close>
  "with_prepared_image env original_path body s =
     (if lower (suffix original_path) = ''.heic'' \<and> platform env = ''darwin'' then
        (let temp_png_path = with_suffix original_path ''.temp.png'';
             command = [SIPS_CMD, ''-s'', ''format'', ''png'', str_path original_path, ''--out'',
                        str_path temp_png_path];
             (r, s') =
                thenE (logE (HeicConversion (path_name original_path)) ''info'')
               (thenE (run_command env command PfxSips) (body temp_png_path)) s
         in if path_exists env (str_path temp_png_path)
            then (r, s'\<lparr>unlinked := unlinked s' @ [str_path temp_png_path]\<rparr>)
            else (r, s'))
      else body original_path s)"

definition decode_and_render ::
  "'img env \<Rightarrow> string \<Rightarrow> pypath \<Rightarrow> settings \<Rightarrow> (string \<times> int) list \<Rightarrow> pypath
     \<Rightarrow> ('img world, flow) prog" where
  \<comment> \<open>the body of the \<open>with\<close> statement of \<open>process_image\<close>\<close>
  "decode_and_render env output_dir file_path user_settings sizes image_to_process s =
     (let target_format = image_format user_settings;
          densities = (if include_retina user_settings then [1, 2] else [1]);
          include_full_size = (''full_size'' \<in> set (sizes_to_process user_settings));
          base_name = stem file_path;
          file_output_folder = joinpath output_dir (stem file_path)
      in case image_open env (str_path image_to_process)
                (if target_format = ''png'' then ''RGBA'' else ''RGB'') of
           Inl UnidentifiedImageError \<Rightarrow>
             (Inr Returned, log_message (Unrecognized (path_name file_path)) ''info'' s)
         | Inl e \<Rightarrow> (Inl e, s)
         | Inr img \<Rightarrow>
             thenE (mkdirE env file_output_folder)
            (thenE (standard_renders env img file_output_folder base_name target_format sizes
                      densities include_full_size)
            (thenE (whenE (compression_mode user_settings = ''max_compression'')
                      (compressed_renders env img file_output_folder base_name target_format
                         sizes densities include_full_size))
                   (returnE Completed))) s)"

definition image_body ::
  "'img env \<Rightarrow> string \<Rightarrow> pypath \<Rightarrow> (string \<times> int) list \<Rightarrow> settings \<Rightarrow> ('img world, flow) prog" where
  \<comment> \<open>the \<open>try\<close> block of \<open>process_image\<close>\<close>
  "image_body env output_dir file_path profile user_settings =
     bindE (plan_sizes env profile user_settings) (\<lambda>sizes.
       thenE (logE (SelectedDimensions (map fst sizes)) ''info'')
      (thenE (logE (ImageProcessing (path_name file_path)) ''info'')
      (bindE (with_prepared_image env file_path
                (decode_and_render env output_dir file_path user_settings sizes))
         (\<lambda>flow. case flow of
                    Returned \<Rightarrow> returnE Returned
                  | Completed \<Rightarrow>
                      thenE (logE (Done (path_name file_path)) ''info'') (returnE Completed)))))"

definition process_image ::
  "'img env \<Rightarrow> pypath \<Rightarrow> (string \<times> int) list \<Rightarrow> settings \<Rightarrow> ('img world, unit) prog" where
  "process_image env file_path profile user_settings s =
     (case OUTPUT_DIR env of
        None \<Rightarrow> logE OutputDirNotSet ''info'' s
      | Some output_dir \<Rightarrow>
          (case image_body env output_dir file_path profile user_settings s of
             (Inr flow, s') \<Rightarrow> (Inr (), s')
           | (Inl (CalledProcessError rc err), s') \<Rightarrow>
               logE (ConvertFailed (path_name file_path)) ''info'' s'
           | (Inl e, s') \<Rightarrow>
               thenE (logE (UnknownProcessingError (path_name file_path) e) ''info'')
                     (logE (Traceback e) ''debug'') s'))"

section \<open>Dispatch of one job\<close>

datatype kind = Image | Video | AudioOnly | Unsupported

definition classify :: "'img env \<Rightarrow> pypath \<Rightarrow> 'img world \<Rightarrow> kind \<times> 'img world" where
  \<comment> \<open>the branch \<open>start_processing_job\<close> takes; only the second test runs the probe\<close>
  "classify env file_path s =
     (let ext = lower (suffix file_path)
      in if ext \<in> set SUPPORTED_IMAGE_FORMATS then (Image, s)
         else if ext \<in> set SUPPORTED_AV_FORMATS then
           (case has_video_stream env file_path s of
              (True, s') \<Rightarrow> (Video, s')
            | (False, s') \<Rightarrow> (AudioOnly, s'))
         else (Unsupported, s))"

definition start_processing_job :: "'img env \<Rightarrow> pypath \<Rightarrow> settings \<Rightarrow> ('img world, unit) prog" where
  "start_processing_job env file_path user_settings s =
     (case classify env file_path s of
        (Image, s') \<Rightarrow> process_image env file_path (image_sizes (cfg env)) user_settings s'
      | (Video, s') \<Rightarrow> process_video env file_path (heights_map (cfg env)) user_settings s'
      | (AudioOnly, s') \<Rightarrow> process_audio_only env file_path user_settings s'
      | (Unsupported, s') \<Rightarrow> logE (SkippingUnsupported (path_name file_path)) ''info'' s')"

section \<open>The job scheduler\<close>

text \<open>
  A future is seen from the request thread: still running, or finished with the exception
  its job raised, if any. The worker threads are the events \<open>Finish\<close>; requests are
  handled one at a time. The dictionary \<open>active_futures\<close> is a list of pairs in
  insertion order; as in a dictionary, its keys are meant distinct, and the properties
  below say so. The exceptions of the model are instances of \<open>Exception\<close>, the only ones
  a job of this program raises: \<open>except Exception\<close> catches each of them.
\<close>

datatype future = Running | Finished "exn option"

record server = logs +
  active_futures :: "(string \<times> future) list"

definition future_done :: "future \<Rightarrow> bool" where
  "future_done f = (f \<noteq> Running)"

definition del_key :: "string \<Rightarrow> (string \<times> 'v) list \<Rightarrow> (exn + unit) \<times> (string \<times> 'v) list" where
  \<comment> \<open>\<open>del d[k]\<close>\<close>
  "del_key k d =
     (if k \<in> fst ` set d then (Inr (), filter (\<lambda>(k', v). k' \<noteq> k) d) else (Inl (KeyError k), d))"

fun reap :: "string list \<Rightarrow> (server, unit) prog" where
  \<comment> \<open>the loop over \<open>completed_jobs\<close>: \<open>result()\<close> re-raises the job's exception into the
      \<open>try\<close>, whose handler logs it; \<open>del\<close> stands outside the \<open>try\<close>\<close>
  "reap [] s = (Inr (), s)"
| "reap (job_id # job_ids) s =
     (let s1 = (case map_of (active_futures s) job_id of
                  None \<Rightarrow> log_message (TaskError job_id (KeyError job_id)) ''info'' s
                | Some (Finished (Some e)) \<Rightarrow> log_message (TaskError job_id e) ''info'' s
                | Some f \<Rightarrow> s)
      in case del_key job_id (active_futures s1) of
           (Inl e, d) \<Rightarrow> (Inl e, s1)
         | (Inr u, d) \<Rightarrow> reap job_ids (s1\<lparr>active_futures := d\<rparr>))"

definition processing_status :: "(server, nat) prog" where
  "processing_status s =
     (let completed_jobs = map fst (filter (\<lambda>(job_id, f). future_done f) (active_futures s))
      in case reap completed_jobs s of
           (Inl e, s') \<Rightarrow> (Inl e, s')
         | (Inr u, s') \<Rightarrow> (Inr (length (active_futures s')), s'))"

datatype event =
    Submit string string        \<comment> \<open>one file of an upload: its name and its fresh job id\<close>
  | Finish string "exn option"  \<comment> \<open>a worker ends the job, with the exception it raised\<close>
  | Poll                        \<comment> \<open>a request to \<open>/processing_status\<close>\<close>

definition finish_future :: "exn option \<Rightarrow> future \<Rightarrow> future" where
  "finish_future r f = (case f of Running \<Rightarrow> Finished r | Finished r' \<Rightarrow> Finished r')"

fun step :: "event \<Rightarrow> server \<Rightarrow> server" where
  "step (Submit filename job_id) s =
     (let s1 = log_message (Uploaded filename) ''info'' s
      in s1\<lparr>active_futures := dict_set (active_futures s1) job_id Running\<rparr>)"
| "step (Finish job_id r) s =
     s\<lparr>active_futures :=
         map (\<lambda>(k, f). if k = job_id then (k, finish_future r f) else (k, f)) (active_futures s)\<rparr>"
| "step Poll s = snd (processing_status s)"

fun run_events :: "event list \<Rightarrow> server \<Rightarrow> server" where
  "run_events [] s = s"
| "run_events (ev # evs) s = run_events evs (step ev s)"

section \<open>Runs of the log operations\<close>

text \<open>
  The program touches \<open>processing_log\<close> in two places only: \<open>log_message\<close> appends
  to it and \<open>clear_log\<close> replaces it. A run is any sequence of the two.
\<close>

datatype log_op = LogMessage msg string | ClearLog

fun apply_log_op :: "log_op \<Rightarrow> 'a logs_scheme \<Rightarrow> 'a logs_scheme" where
  "apply_log_op (LogMessage m level) s = log_message m level s"
| "apply_log_op ClearLog s = clear_log s"

fun apply_log_ops :: "log_op list \<Rightarrow> 'a logs_scheme \<Rightarrow> 'a logs_scheme" where
  "apply_log_ops [] s = s"
| "apply_log_ops (op # ops) s = apply_log_ops ops (apply_log_op op s)"

fun info_since_clear :: "log_op list \<Rightarrow> msg list" where
  \<comment> \<open>the messages of the info-level calls made after the last \<open>clear_log\<close>, in order\<close>
  "info_since_clear [] = []"
| "info_since_clear (LogMessage m level # ops) =
     (if ClearLog \<in> set ops then info_since_clear ops
      else (if level = ''info'' then [m] else []) @ info_since_clear ops)"
| "info_since_clear (ClearLog # ops) = info_since_clear ops"

definition logs_of :: "'a logs_scheme \<Rightarrow> msg list \<times> msg list" where
  "logs_of s = (processing_log s, printed s)"

definition only_logs :: "'a logs_scheme \<Rightarrow> 'b logs_scheme \<Rightarrow> bool" where
  \<comment> \<open>from \<open>s\<close> to \<open>s'\<close> the log and the standard output changed as by a run of
      \<open>log_message\<close> calls\<close>
  "only_logs s s' = (\<exists>ops. ClearLog \<notin> set ops \<and> logs_of s' = logs_of (apply_log_ops ops s))"

definition logs_only :: "('a logs_scheme, 'r) prog \<Rightarrow> bool" where
  "logs_only m = (\<forall>s. only_logs s (snd (m s)))"

definition logs0 :: logs where
  \<comment> \<open>the log when the process starts\<close>
  "logs0 = \<lparr>processing_log = [], printed = []\<rparr>"

section \<open>Commands as the tools receive them\<close>

definition invoked :: "'img env \<Rightarrow> string list \<Rightarrow> string list" where
  \<comment> \<open>what \<open>run_command\<close> hands to \<open>subprocess.run\<close>: the transcoder gets
      \<open>-loglevel error\<close> after its name\<close>
  "invoked env command =
     (case command of
        [] \<Rightarrow> []
      | c0 # args \<Rightarrow>
          if c0 = FFMPEG_CMD env then c0 # ''-loglevel'' # ''error'' # args else command)"

definition succeeds :: "'img env \<Rightarrow> string list \<Rightarrow> bool" where
  \<comment> \<open>the tool is found and exits with code 0\<close>
  "succeeds env command =
     (case subprocess_run env (invoked env command) of
        Exited rc out err \<Rightarrow> rc = 0
      | Raised e \<Rightarrow> False)"

definition probe_cmd :: "'img env \<Rightarrow> pypath \<Rightarrow> string list" where
  "probe_cmd env file_path =
     [FFPROBE_CMD env, ''-v'', ''error'', ''-select_streams'', ''v:0'', ''-show_entries'',
      ''stream=codec_type'', ''-of'', ''json'', str_path file_path]"

definition probe_reports_video :: "'img env \<Rightarrow> pypath \<Rightarrow> bool" where
  \<comment> \<open>the probe ran, exited with code 0, and its output holds the word \<open>video\<close>\<close>
  "probe_reports_video env file_path =
     (case subprocess_run env (invoked env (probe_cmd env file_path)) of
        Exited rc out err \<Rightarrow> rc = 0 \<and> contains out ''video''
      | Raised e \<Rightarrow> False)"

definition looks_like_json_object :: "string \<Rightarrow> bool" where
  \<comment> \<open>the least a well-formed report of the probe satisfies: printed with \<open>-of json\<close>, it
      is one JSON object, so it opens with a brace and closes with one\<close>
  "looks_like_json_object text =
     (case strip text of
        [] \<Rightarrow> False
      | c # cs \<Rightarrow> c = CHR ''{'' \<and> last (c # cs) = CHR ''}'')"

definition audio_cmd :: "'img env \<Rightarrow> pypath \<Rightarrow> string \<Rightarrow> string list" where
  \<comment> \<open>the one transcode of an audio-only asset, as the tool receives it\<close>
  "audio_cmd env file_path output_dir =
     [FFMPEG_CMD env, ''-loglevel'', ''error'', ''-i'', str_path file_path, ''-c:a'', ''libmp3lame'',
      ''-q:a'', ''2'',
      joinpath (joinpath output_dir (stem file_path)) (stem file_path @ ''.mp3''), ''-y'']"

section \<open>A sample environment\<close>

text \<open>
  Concrete inputs for the examples: a symbolic bitmap that remembers how it was made, an
  environment whose tools and decoder are given, and the state before a job.
\<close>

datatype bitmap = Decoded string string int int | Resampled bitmap int int

fun bitmap_width :: "bitmap \<Rightarrow> int" where
  "bitmap_width (Decoded path mode w h) = w"
| "bitmap_width (Resampled b w h) = w"

fun bitmap_height :: "bitmap \<Rightarrow> int" where
  "bitmap_height (Decoded path mode w h) = h"
| "bitmap_height (Resampled b w h) = h"

definition sample_config :: config where
  "sample_config =
     \<lparr>image_sizes = [(''thumb'', 300)], heights_map = [(''720p'', 720)],
      image_standard_quality = Some 85, image_max_quality = Some 75,
      video_standard_crf = None, video_standard_preset = None,
      video_max_crf = None, video_max_preset = None\<rparr>"

definition sample_env ::
  "(string list \<Rightarrow> proc) \<Rightarrow> (string \<Rightarrow> string \<Rightarrow> exn + bitmap) \<Rightarrow> bitmap env" where
  "sample_env run opn =
     \<lparr>FFMPEG_CMD = ''bin/ffmpeg'', FFPROBE_CMD = ''bin/ffprobe'', platform = ''linux'',
      OUTPUT_DIR = Some ''out'', cfg = sample_config, int_max_str_digits = 4300,
      subprocess_run = run, mkdir = (\<lambda>d. None), path_exists = (\<lambda>p. False),
      image_open = opn, image_width = bitmap_width, image_height = bitmap_height,
      image_resize = (\<lambda>b w h. if w < 1 \<or> h < 1 then Inl ValueError else Inr (Resampled b w h)),
      image_save = (\<lambda>f. None)\<rparr>"

definition sample_settings :: settings where
  "sample_settings =
     \<lparr>image_format = ''webp'', video_format = ''mp4'', compression_mode = ''standard'',
      custom_sizes = [], sizes_to_process = [''thumb'', ''720p'', ''full_size''],
      include_retina = False\<rparr>"

definition world0 :: "bitmap world" where
  "world0 = \<lparr>processing_log = [], printed = [], ran = [], made_dirs = [], saved = [],
             unlinked = []\<rparr>"

definition all_succeed :: "string list \<Rightarrow> proc" where
  \<comment> \<open>every tool exits with code 0 and prints nothing\<close>
  "all_succeed command = Exited 0 [] []"

definition undecodable :: "string \<Rightarrow> string \<Rightarrow> exn + bitmap" where
  "undecodable path mode = Inl UnidentifiedImageError"

definition decodes_to :: "int \<Rightarrow> int \<Rightarrow> string \<Rightarrow> string \<Rightarrow> exn + bitmap" where
  "decodes_to w h path mode = Inr (Decoded path mode w h)"

definition clip :: pypath where
  "clip = \<lparr>path_parent = ''src'', path_name = ''clip.MP4''\<rparr>"

definition photo :: pypath where
  "photo = \<lparr>path_parent = ''src'', path_name = ''photo.png''\<rparr>"

section \<open>The variants of one image asset\<close>



section \<open>The tokens of a custom-size field\<close>

definition digit_tokens :: "string \<Rightarrow> string list" where
  \<comment> \<open>the stripped comma-separated tokens on which \<open>isdigit\<close> holds, in order\<close>
  "digit_tokens custom_sizes_str = filter isdigit (map strip (split_on CHR '','' custom_sizes_str))"

definition converts :: "nat \<Rightarrow> string \<Rightarrow> bool" where
  \<comment> \<open>\<open>int\<close> accepts the token: decimal digits only, within the interpreter's limit\<close>
  "converts maxd t = (list_all isdecimal_char t \<and> (maxd = 0 \<or> length t \<le> maxd))"

definition custom_entry :: "string \<Rightarrow> string \<times> int" where
  \<comment> \<open>the dictionary entry of a token\<close>
  "custom_entry t = (''custom_'' @ t @ ''px'', int (digits_value t))"

definition superscript_two_field :: string where
  \<comment> \<open>the custom-size field \<open>50,\<close> followed by U+00B2, SUPERSCRIPT TWO\<close>
  "superscript_two_field = ''50,'' @ [CHR 0xB2]"

definition error_line :: "string \<Rightarrow> msg \<Rightarrow> bool" where
  \<comment> \<open>the error lines \<open>process_image\<close> writes about a file\<close>
  "error_line name m =
     (m = Unrecognized name \<or> m = ConvertFailed name
      \<or> (case m of UnknownProcessingError n e \<Rightarrow> n = name | _ \<Rightarrow> False))"

section \<open>The transcoder invocations of one video asset\<close>

definition tier_cmds ::
  "'img env \<Rightarrow> pypath \<Rightarrow> string \<Rightarrow> string \<Rightarrow> (string \<times> int) list \<Rightarrow> bool \<Rightarrow> string \<Rightarrow> int \<Rightarrow> bool
     \<Rightarrow> string list list" where
  \<comment> \<open>the commands \<open>video_tier\<close> builds, in the order of the code\<close>
  "tier_cmds env file_path file_output_folder target_format heights_to_process include_full_size
     preset crf compressed =
     (let base_name = stem file_path;
          video_codec = get_or VIDEO_CODECS target_format ''libx264'';
          audio_codec = (if target_format = ''webm'' then ''libopus'' else ''aac'');
          tag = (if compressed then ''_compressed'' else [])
      in map (\<lambda>(size_label, height).
                scaled_cmd env file_path video_codec audio_codec preset crf
                  (base_name @ ''_'' @ size_label @ tag @ ''.'' @ target_format)
                  height file_output_folder) heights_to_process
         @ (if include_full_size
            then [full_size_cmd env file_path video_codec audio_codec preset crf
                    (base_name @ ''_full_size'' @ tag @ ''.'' @ target_format) file_output_folder]
            else []))"

definition video_cmds ::
  "'img env \<Rightarrow> pypath \<Rightarrow> string \<Rightarrow> settings \<Rightarrow> (string \<times> int) list \<Rightarrow> string list list" where
  \<comment> \<open>every invocation \<open>process_video\<close> plans: the poster, the standard tier, and the
      compressed tier under \<open>max_compression\<close>\<close>
  "video_cmds env file_path file_output_folder user_settings heights_to_process =
     (let target_format = video_format user_settings;
          include_full_size = (''full_size'' \<in> set (sizes_to_process user_settings))
      in poster_cmd env file_path file_output_folder
         # tier_cmds env file_path file_output_folder target_format heights_to_process
             include_full_size (opt_or (video_standard_preset (cfg env)) ''medium'')
             (opt_or (video_standard_crf (cfg env)) 23) False
         @ (if compression_mode user_settings = ''max_compression''
            then tier_cmds env file_path file_output_folder target_format heights_to_process
                   include_full_size (opt_or (video_max_preset (cfg env)) ''slow'')
                   (opt_or (video_max_crf (cfg env)) 28) True
            else []))"

fun attempted :: "'img env \<Rightarrow> string list list \<Rightarrow> string list list" where
  \<comment> \<open>a list of commands run in order until one fails: what the tools receive\<close>
  "attempted env [] = []"
| "attempted env (c # cs) = invoked env c # (if succeeds env c then attempted env cs else [])"

definition runs :: "'img env \<Rightarrow> ('img world, 'a) prog \<Rightarrow> string list list \<Rightarrow> bool" where
  \<comment> \<open>the statement runs the commands in order, stops at the first that fails, and
      raises exactly then\<close>
  "runs env m cmds =
     (\<forall>s. ran (snd (m s)) = ran s @ attempted env cmds
          \<and> made_dirs (snd (m s)) = made_dirs s \<and> saved (snd (m s)) = saved s
          \<and> isl (fst (m s)) = (\<not> list_all (succeeds env) cmds))"

definition poster_fails :: "string list \<Rightarrow> proc" where
  \<comment> \<open>the transcoder fails on the poster frame and on nothing else\<close>
  "poster_fails command =
     (if ''-vframes'' \<in> set command then Exited 1 [] ''no frame'' else Exited 0 [] [])"

definition video_error_line :: "string \<Rightarrow> msg \<Rightarrow> bool" where
  \<comment> \<open>the line \<open>process_video\<close> logs when its \<open>try\<close> block raised\<close>
  "video_error_line name m = (case m of VideoError n e \<Rightarrow> n = name | _ \<Rightarrow> False)"

section \<open>What a status poll reaps\<close>








section \<open>What the image producer writes\<close>

definition emits :: "('img world, 'a) prog \<Rightarrow> (exn + 'a) \<Rightarrow> 'img saved_file list \<Rightarrow> bool" where
  \<comment> \<open>whatever the state, the statement ends the same way and saves the same files\<close>
  "emits m r new = (\<forall>s. fst (m s) = r \<and> saved (snd (m s)) = saved s @ new)"

definition from_original :: "'img env \<Rightarrow> 'img \<Rightarrow> 'img saved_file \<Rightarrow> bool" where
  \<comment> \<open>the saved bitmap is \<open>img\<close> itself or \<open>img\<close> resized once\<close>
  "from_original env img file =
     (save_image file = img \<or> (\<exists>w h. image_resize env img w h = Inr (save_image file)))"

definition compressed_name :: "string \<Rightarrow> string \<Rightarrow> 'img saved_file \<Rightarrow> bool" where
  \<comment> \<open>the file lies in the folder and its name ends with \<open>_compressed.\<close> and the format\<close>
  "compressed_name file_output_folder target_format file =
     (\<exists>pre. save_path file = joinpath file_output_folder (pre @ ''_compressed.'' @ target_format))"

definition emits_only :: "('img saved_file \<Rightarrow> bool) \<Rightarrow> ('img world, 'a) prog \<Rightarrow> bool" where
  "emits_only P m = (\<exists>r new. emits m r new \<and> list_all P new)"

definition max_settings :: settings where
  \<comment> \<open>the sample settings with the compressed tier requested\<close>
  "max_settings = sample_settings\<lparr>compression_mode := ''max_compression''\<rparr>"

section \<open>Properties\<close>

subsection \<open>Sequencing\<close>

lemma thenE_logE: "thenE (logE m level) n s = n (log_message m level s)"
  by (simp add: thenE_def bindE_def logE_def)

lemma thenE_raiseE: "thenE (raiseE e) n s = (Inl e, s)"
  by (simp add: thenE_def bindE_def raiseE_def)

lemma bindE_returnE: "bindE (returnE x) f s = f x s"
  by (simp add: bindE_def returnE_def)

lemma bindE_raiseE: "bindE (raiseE e) f s = (Inl e, s)"
  by (simp add: bindE_def raiseE_def)

lemma thenE_apply:
  "thenE m n s = (case m s of (Inl e, s') \<Rightarrow> (Inl e, s') | (Inr x, s') \<Rightarrow> n s')"
  by (simp add: thenE_def bindE_def)

lemma thenE_mkdirE:
  "thenE (mkdirE env d) n s =
     (case mkdir env d of
        Some e \<Rightarrow> (Inl e, s)
      | None \<Rightarrow> n (s\<lparr>made_dirs := made_dirs s @ [d]\<rparr>))"
  by (simp add: thenE_def bindE_def mkdirE_def split: option.splits)

subsection \<open>The processing log\<close>

lemma apply_log_ops_exact:
  "processing_log (apply_log_ops ops s) =
     (if ClearLog \<in> set ops then [NewSession] else processing_log s) @ info_since_clear ops"
proof (induction ops arbitrary: s)
  case Nil
  then show ?case by simp
next
  case (Cons op ops)
  show ?case
  proof (cases op)
    case (LogMessage m level)
    then show ?thesis using Cons.IH [of "log_message m level s"]
      by (simp add: log_message_def)
  next
    case ClearLog
    then show ?thesis using Cons.IH [of "clear_log s"]
      by (simp add: clear_log_def)
  qed
qed

lemma apply_log_ops_append: "apply_log_ops (a @ b) s = apply_log_ops b (apply_log_ops a s)"
  by (induction a arbitrary: s) simp_all

lemma logs_of_op_cong:
  "logs_of s = logs_of t \<Longrightarrow> logs_of (apply_log_op op s) = logs_of (apply_log_op op t)"
  by (cases op) (auto simp: logs_of_def log_message_def clear_log_def)

lemma logs_of_ops_cong:
  "logs_of s = logs_of t \<Longrightarrow> logs_of (apply_log_ops ops s) = logs_of (apply_log_ops ops t)"
proof (induction ops arbitrary: s t)
  case Nil
  then show ?case by simp
next
  case (Cons op ops)
  from Cons.prems have "logs_of (apply_log_op op s) = logs_of (apply_log_op op t)"
    by (rule logs_of_op_cong)
  then show ?case using Cons.IH by simp
qed

lemma only_logs_same: "logs_of s' = logs_of s \<Longrightarrow> only_logs s s'"
  unfolding only_logs_def by (rule exI [of _ "[]"]) simp

lemma only_logs_trans:
  assumes "only_logs s t" and "only_logs t u"
  shows "only_logs s u"
proof -
  from assms(1) obtain a where a: "ClearLog \<notin> set a" "logs_of t = logs_of (apply_log_ops a s)"
    unfolding only_logs_def by blast
  from assms(2) obtain b where b: "ClearLog \<notin> set b" "logs_of u = logs_of (apply_log_ops b t)"
    unfolding only_logs_def by blast
  have "logs_of u = logs_of (apply_log_ops b (apply_log_ops a s))"
    using b(2) logs_of_ops_cong [OF a(2), of b] by simp
  then have "logs_of u = logs_of (apply_log_ops (a @ b) s)"
    by (simp add: apply_log_ops_append)
  moreover have "ClearLog \<notin> set (a @ b)" using a(1) b(1) by simp
  ultimately show ?thesis unfolding only_logs_def by blast
qed

lemma only_logs_log_message: "only_logs s (log_message m level s)"
  unfolding only_logs_def by (rule exI [of _ "[LogMessage m level]"]) simp

lemma logs_only_returnE: "logs_only (returnE x)"
  by (simp add: logs_only_def returnE_def only_logs_same)

lemma logs_only_raiseE: "logs_only (raiseE e)"
  by (simp add: logs_only_def raiseE_def only_logs_same)

lemma logs_only_logE: "logs_only (logE m level)"
  by (simp add: logs_only_def logE_def only_logs_log_message)

lemma logs_only_bindE:
  assumes "logs_only m" and "\<And>x. logs_only (f x)"
  shows "logs_only (bindE m f)"
  unfolding logs_only_def
proof
  fix s
  obtain r s' where ms: "m s = (r, s')" by (cases "m s")
  have 1: "only_logs s s'" using assms(1) ms unfolding logs_only_def by (metis snd_conv)
  show "only_logs s (snd (bindE m f s))"
  proof (cases r)
    case (Inl e)
    then show ?thesis using ms 1 by (simp add: bindE_def)
  next
    case (Inr x)
    have "only_logs s' (snd (f x s'))" using assms(2) unfolding logs_only_def by blast
    with 1 have "only_logs s (snd (f x s'))" by (rule only_logs_trans)
    then show ?thesis using ms Inr by (simp add: bindE_def)
  qed
qed

lemma logs_only_thenE: "logs_only m \<Longrightarrow> logs_only n \<Longrightarrow> logs_only (thenE m n)"
  unfolding thenE_def by (rule logs_only_bindE)

lemma logs_only_whenE: "logs_only m \<Longrightarrow> logs_only (whenE b m)"
  by (simp add: whenE_def logs_only_returnE)

lemma logs_only_for_each:
  assumes "\<And>x. logs_only (body x)"
  shows "logs_only (for_each xs body)"
  unfolding logs_only_def
proof
  fix s show "only_logs s (snd (for_each xs body s))"
  proof (induction xs arbitrary: s)
    case Nil
    then show ?case by (simp add: only_logs_same)
  next
    case (Cons x xs)
    obtain r s' where b: "body x s = (r, s')" by (cases "body x s")
    have 1: "only_logs s s'" using assms [of x] b unfolding logs_only_def by (metis snd_conv)
    show ?case
    proof (cases r)
      case (Inl e)
      then show ?thesis using b 1 by simp
    next
      case (Inr u)
      have "only_logs s (snd (for_each xs body s'))"
        using 1 Cons.IH [of s'] by (rule only_logs_trans)
      then show ?thesis using b Inr by simp
    qed
  qed
qed

lemma logs_only_eq: "(\<And>s. logs_of (snd (m s)) = logs_of s) \<Longrightarrow> logs_only m"
  by (simp add: logs_only_def only_logs_same)

lemma logs_only_appI: "logs_only m \<Longrightarrow> only_logs s (snd (m s))"
  by (simp add: logs_only_def)

lemma logs_only_lam: "(\<And>s. only_logs s (snd (m s))) \<Longrightarrow> logs_only m"
  by (simp add: logs_only_def)

lemma logs_only_mkdirE: "logs_only (mkdirE env d)"
  by (rule logs_only_eq) (simp add: mkdirE_def logs_of_def split: option.splits)

lemma logs_only_subscript: "logs_only (subscript d k)"
  by (simp add: subscript_def logs_only_returnE logs_only_raiseE split: option.splits)

lemma logs_only_called_process_error: "logs_only (called_process_error command pfx rc err)"
  by (simp add: called_process_error_def logs_only_thenE logs_only_logE logs_only_raiseE
      split: list.splits)

lemma logs_only_run_command: "logs_only (run_command env command pfx)"
proof (rule logs_only_lam)
  fix s :: "'a world"
  show "only_logs s (snd (run_command env command pfx s))"
  proof (cases command)
    case Nil
    then show ?thesis by (simp add: run_command_def only_logs_same)
  next
    case (Cons c0 args)
    let ?c = "if c0 = FFMPEG_CMD env then c0 # ''-loglevel'' # ''error'' # args else command"
    let ?s1 = "s\<lparr>ran := ran s @ [?c]\<rparr>"
    have 1: "only_logs s ?s1" by (rule only_logs_same) (simp add: logs_of_def)
    have 2: "only_logs ?s1 (snd (run_command env command pfx s))"
      using Cons
      by (auto simp: run_command_def Let_def only_logs_same
          intro!: logs_only_appI logs_only_thenE logs_only_logE logs_only_returnE
            logs_only_raiseE logs_only_called_process_error
          split: proc.splits exn.splits)
    show ?thesis using 1 2 by (rule only_logs_trans)
  qed
qed


lemma logs_only_catch:
  assumes "logs_only body" and "\<And>e. logs_only (handler e)"
  shows "only_logs s (snd (case body s of (Inr u, s') \<Rightarrow> (Inr v, s') | (Inl e, s') \<Rightarrow> handler e s'))"
proof -
  obtain r s' where b: "body s = (r, s')" by (cases "body s")
  have 1: "only_logs s s'" using assms(1) b unfolding logs_only_def by (metis snd_conv)
  show ?thesis
  proof (cases r)
    case (Inl e)
    have "only_logs s' (snd (handler e s'))" using assms(2) by (rule logs_only_appI)
    with 1 have "only_logs s (snd (handler e s'))" by (rule only_logs_trans)
    then show ?thesis using b Inl by simp
  next
    case (Inr u)
    then show ?thesis using b 1 by simp
  qed
qed

lemma only_logs_has_video_stream: "only_logs s (snd (has_video_stream env fp s))"
proof -
  let ?m = "run_command env (probe_cmd env fp) PfxProbe"
  obtain r s' where b: "?m s = (r, s')" by (cases "?m s")
  have "only_logs s (snd (?m s))" using logs_only_run_command by (rule logs_only_appI)
  then show ?thesis using b
    by (cases r) (simp_all add: has_video_stream_def probe_cmd_def Let_def)
qed

lemma logs_only_get_custom_sizes: "logs_only (get_custom_sizes env str)"
  by (rule logs_only_lam)
     (auto simp: get_custom_sizes_def only_logs_same only_logs_log_message
       split: sum.splits exn.splits)

lemma logs_only_plan_sizes: "logs_only (plan_sizes env profile st)"
  unfolding plan_sizes_def
  by (intro logs_only_bindE logs_only_get_custom_sizes logs_only_returnE)

lemma logs_only_audio_body: "logs_only (audio_body env fp st)"
  unfolding audio_body_def Let_def
  by (auto intro!: logs_only_thenE logs_only_bindE logs_only_logE logs_only_raiseE
      logs_only_mkdirE logs_only_subscript logs_only_run_command split: option.splits)

lemma logs_only_process_audio_only: "logs_only (process_audio_only env fp st)"
proof (rule logs_only_lam)
  fix s :: "'a world"
  have h: "\<And>e. logs_only (thenE (logE (AudioError (path_name fp) e) ''info'')
                (logE (Traceback e) ''debug'') :: ('a world, unit) prog)"
    by (intro logs_only_thenE logs_only_logE)
  show "only_logs s (snd (process_audio_only env fp st s))"
    unfolding process_audio_only_def
    using logs_only_catch [OF logs_only_audio_body h] .
qed

lemma logs_only_video_tier:
  "logs_only (video_tier env fp folder fmt heights full preset crf compressed)"
  unfolding video_tier_def Let_def
  by (intro logs_only_thenE logs_only_whenE logs_only_for_each logs_only_run_command
      logs_only_returnE) (auto intro!: logs_only_thenE logs_only_run_command logs_only_returnE)

lemma logs_only_video_renditions: "logs_only (video_renditions env fp folder st heights)"
  unfolding video_renditions_def Let_def
  by (intro logs_only_thenE logs_only_whenE logs_only_logE logs_only_run_command
      logs_only_video_tier)

lemma logs_only_video_body: "logs_only (video_body env out fp profile st)"
  unfolding video_body_def
  by (intro logs_only_bindE logs_only_thenE logs_only_logE logs_only_mkdirE
      logs_only_plan_sizes logs_only_video_renditions)

lemma logs_only_process_video: "logs_only (process_video env fp profile st)"
proof (rule logs_only_lam)
  fix s :: "'a world"
  have h: "\<And>e. logs_only (thenE (logE (VideoError (path_name fp) e) ''info'')
                (logE (Traceback e) ''debug'') :: ('a world, unit) prog)"
    by (intro logs_only_thenE logs_only_logE)
  show "only_logs s (snd (process_video env fp profile st s))"
  proof (cases "OUTPUT_DIR env")
    case None
    then show ?thesis
      by (simp add: process_video_def logE_def only_logs_log_message)
  next
    case (Some out)
    then show ?thesis
      unfolding process_video_def
      using logs_only_catch [OF logs_only_video_body h] by simp
  qed
qed


lemma logs_only_saveE: "logs_only (saveE env im path fmt params)"
proof -
  have "\<And>format. logs_only (\<lambda>s :: 'a world.
       let file = \<lparr>save_path = path, save_image = im, save_format = format, save_options = params\<rparr>
       in case image_save env file of
            Some e \<Rightarrow> (Inl e, s)
          | None \<Rightarrow> (Inr (), s\<lparr>saved := saved s @ [file]\<rparr>))"
    by (rule logs_only_eq) (simp add: Let_def logs_of_def split: option.splits)
  then show ?thesis unfolding saveE_def
    by (intro logs_only_bindE logs_only_subscript)
qed

lemma logs_only_render_variant:
  "logs_only (render_variant env img folder fmt params file_name base_width density)"
  unfolding render_variant_def Let_def
  by (auto intro!: logs_only_raiseE logs_only_saveE split: sum.splits)

lemma logs_only_standard_renders:
  "logs_only (standard_renders env img folder base fmt sizes densities full)"
  unfolding standard_renders_def Let_def
  by (intro logs_only_thenE logs_only_whenE logs_only_logE logs_only_saveE logs_only_for_each)
     (auto intro!: logs_only_for_each logs_only_render_variant)

lemma logs_only_compressed_renders:
  "logs_only (compressed_renders env img folder base fmt sizes densities full)"
  unfolding compressed_renders_def Let_def
  by (intro logs_only_thenE logs_only_whenE logs_only_logE logs_only_saveE logs_only_for_each)
     (auto intro!: logs_only_for_each logs_only_render_variant)

lemma logs_only_decode_and_render:
  "logs_only (decode_and_render env out fp st sizes image_to_process)"
proof (rule logs_only_lam)
  fix s :: "'a world"
  show "only_logs s (snd (decode_and_render env out fp st sizes image_to_process s))"
    unfolding decode_and_render_def Let_def
    by (auto simp: only_logs_same only_logs_log_message
        intro!: logs_only_appI logs_only_thenE logs_only_whenE logs_only_mkdirE
          logs_only_standard_renders logs_only_compressed_renders logs_only_returnE
        split: sum.splits exn.splits)
qed

lemma logs_only_with_prepared_image:
  assumes "\<And>p. logs_only (body p)"
  shows "logs_only (with_prepared_image env fp body)"
proof (rule logs_only_lam)
  fix s :: "'a world"
  let ?temp = "with_suffix fp ''.temp.png''"
  let ?m = "thenE (logE (HeicConversion (path_name fp)) ''info'')
             (thenE (run_command env
                [SIPS_CMD, ''-s'', ''format'', ''png'', str_path fp, ''--out'', str_path ?temp] PfxSips)
                (body ?temp))"
  have m: "only_logs s (snd (?m s))"
    by (intro logs_only_appI logs_only_thenE logs_only_logE logs_only_run_command assms)
  obtain r s' where ms: "?m s = (r, s')" by (cases "?m s")
  have 1: "only_logs s s'" using m ms by simp
  have 2: "only_logs s (s'\<lparr>unlinked := unlinked s' @ [str_path ?temp]\<rparr>)"
    using 1 by (rule only_logs_trans) (simp add: only_logs_same logs_of_def)
  have 3: "only_logs s (snd (body fp s))" using assms by (rule logs_only_appI)
  show "only_logs s (snd (with_prepared_image env fp body s))"
    using ms 1 2 3 by (simp add: with_prepared_image_def Let_def)
qed

lemma logs_only_image_body: "logs_only (image_body env out fp profile st)"
  unfolding image_body_def
  by (intro logs_only_bindE logs_only_thenE logs_only_logE logs_only_plan_sizes
      logs_only_with_prepared_image logs_only_decode_and_render)
     (auto intro!: logs_only_returnE logs_only_thenE logs_only_logE split: flow.splits)

lemma logs_only_process_image: "logs_only (process_image env fp profile st)"
proof (rule logs_only_lam)
  fix s :: "'a world"
  show "only_logs s (snd (process_image env fp profile st s))"
  proof (cases "OUTPUT_DIR env")
    case None
    then show ?thesis
      by (simp add: process_image_def logE_def only_logs_log_message)
  next
    case (Some out)
    let ?b = "image_body env out fp profile st"
    obtain r s' where b: "?b s = (r, s')" by (cases "?b s")
    have 1: "only_logs s s'"
      using logs_only_appI [OF logs_only_image_body, of s env out fp profile st] b by simp
    have 2: "only_logs s (log_message m level s')" for m level
      using 1 only_logs_log_message by (rule only_logs_trans)
    have 3: "only_logs s (log_message m' level' (log_message m level s'))" for m level m' level'
      using 2 only_logs_log_message by (rule only_logs_trans)
    show ?thesis using Some b 1 2 3
      by (auto simp: process_image_def thenE_logE logE_def split: sum.splits exn.splits)
  qed
qed

lemma only_logs_classify: "only_logs s (snd (classify env fp s))"
proof -
  obtain b s' where hv: "has_video_stream env fp s = (b, s')"
    by (cases "has_video_stream env fp s")
  have "only_logs s s'" using only_logs_has_video_stream [of s env fp] hv by simp
  then show ?thesis using hv
    by (cases b) (auto simp: classify_def Let_def only_logs_same)
qed

lemma logs_only_start_processing_job: "logs_only (start_processing_job env fp st)"
proof (rule logs_only_lam)
  fix s :: "'a world"
  obtain k s' where c: "classify env fp s = (k, s')" by (cases "classify env fp s")
  have 1: "only_logs s s'" using only_logs_classify [of s env fp] c by simp
  have 2: "only_logs s' (snd (start_processing_job env fp st s))"
    using c by (cases k)
      (auto simp: start_processing_job_def
        intro!: logs_only_appI logs_only_process_image logs_only_process_video
          logs_only_process_audio_only logs_only_logE)
  show "only_logs s (snd (start_processing_job env fp st s))" using 1 2 by (rule only_logs_trans)
qed

lemma logs_only_reap: "logs_only (reap job_ids)"
proof (rule logs_only_lam)
  fix s :: server
  show "only_logs s (snd (reap job_ids s))"
  proof (induction job_ids arbitrary: s)
    case Nil
    then show ?case by (simp add: only_logs_same)
  next
    case (Cons j js)
    let ?s1 = "case map_of (active_futures s) j of
                  None \<Rightarrow> log_message (TaskError j (KeyError j)) ''info'' s
                | Some (Finished (Some e)) \<Rightarrow> log_message (TaskError j e) ''info'' s
                | Some f \<Rightarrow> s"
    have 1: "only_logs s ?s1"
      by (auto simp: only_logs_same only_logs_log_message split: option.splits future.splits)
    obtain r d where dk: "del_key j (active_futures ?s1) = (r, d)"
      by (cases "del_key j (active_futures ?s1)")
    have 2: "only_logs s (?s1\<lparr>active_futures := d\<rparr>)"
      using 1 by (rule only_logs_trans) (simp add: only_logs_same logs_of_def)
    have 3: "only_logs s (snd (reap js (?s1\<lparr>active_futures := d\<rparr>)))"
      using 2 Cons.IH by (rule only_logs_trans)
    show ?case using dk 1 3 by (cases r) (simp_all add: Let_def)
  qed
qed

lemma logs_only_processing_status: "logs_only processing_status"
proof (rule logs_only_lam)
  fix s :: server
  let ?c = "map fst (filter (\<lambda>(job_id, f). future_done f) (active_futures s))"
  obtain r s' where rp: "reap ?c s = (r, s')" by (cases "reap ?c s")
  have "only_logs s s'" using logs_only_appI [OF logs_only_reap, of s ?c] rp by simp
  then show "only_logs s (snd (processing_status s))"
    using rp by (cases r) (simp_all add: processing_status_def Let_def)
qed

lemma only_logs_step: "only_logs s (step ev s)"
proof (cases ev)
  case (Submit filename job_id)
  let ?s1 = "log_message (Uploaded filename) ''info'' s"
  have 1: "only_logs s ?s1" by (rule only_logs_log_message)
  have 2: "only_logs ?s1 (?s1\<lparr>active_futures := dict_set (active_futures ?s1) job_id Running\<rparr>)"
    by (rule only_logs_same) (simp add: logs_of_def)
  have "only_logs s (?s1\<lparr>active_futures := dict_set (active_futures ?s1) job_id Running\<rparr>)"
    using 1 2 by (rule only_logs_trans)
  then show ?thesis using Submit by (simp add: Let_def)
next
  case (Finish job_id r)
  then show ?thesis by (simp add: only_logs_same logs_of_def)
next
  case Poll
  then show ?thesis using logs_only_appI [OF logs_only_processing_status, of s] by simp
qed

lemma only_logs_run_events: "only_logs s (run_events evs s)"
proof (induction evs arbitrary: s)
  case Nil
  then show ?case by (simp add: only_logs_same)
next
  case (Cons ev evs)
  have "only_logs s (run_events evs (step ev s))"
    using only_logs_step Cons.IH by (rule only_logs_trans)
  then show ?case by simp
qed

lemma info_since_clear_subset: "set (info_since_clear ops) \<subseteq> {m. LogMessage m ''info'' \<in> set ops}"
proof (induction ops)
  case Nil
  then show ?case by simp
next
  case (Cons op ops)
  then show ?case by (cases op) auto
qed

text \<open>
  C10, as the code has it. A message logged at the debug level is printed and leaves the
  processing log as it was; one logged at the info level is appended to it. After any run
  of \<open>log_message\<close> and \<open>clear_log\<close> calls the polled snapshot is exactly: the sentinel
  line if \<open>clear_log\<close> was called, else what the log held before, followed by the
  messages of the info-level calls made since the last \<open>clear_log\<close>, in order. Every job
  (\<open>start_processing_job\<close>, with all it calls) and every run of uploads, job ends and
  status polls changes the log and the standard output only as a run of \<open>log_message\<close>
  calls does. So a debug message never reaches a snapshot, and the only line of a snapshot
  that no info-level call produced is the sentinel.
\<close>

theorem polled_log_sentinel_and_info_only:
  "processing_log (log_message m ''debug'' s) = processing_log s
   \<and> printed (log_message m ''debug'' s) = printed s @ [m]
   \<and> processing_log (log_message m ''info'' s) = processing_log s @ [m]
   \<and> status (apply_log_ops ops s) =
        (if ClearLog \<in> set ops then [NewSession] else processing_log s) @ info_since_clear ops
   \<and> set (info_since_clear ops) \<subseteq> {m. LogMessage m ''info'' \<in> set ops}
   \<and> only_logs w (snd (start_processing_job env file_path user_settings w))
   \<and> only_logs sv (snd (processing_status sv))
   \<and> only_logs sv (run_events evs sv)"
  using apply_log_ops_exact [of ops s] info_since_clear_subset [of ops]
    logs_only_appI [OF logs_only_start_processing_job, of w env file_path user_settings]
    logs_only_appI [OF logs_only_processing_status, of sv]
    only_logs_run_events [of sv evs]
  by (simp add: log_message_def status_def)

theorem polled_log_sentinel_and_info_only_witness:
  "status (apply_log_ops
     [LogMessage ResizedCreated ''info'', LogMessage (Traceback ValueError) ''debug'', ClearLog,
      LogMessage CompressedCreated ''info'', LogMessage (Traceback IndexError) ''debug''] logs0) =
   [NewSession, CompressedCreated]"
  using polled_log_sentinel_and_info_only
    [of "Traceback ValueError" logs0
        "[LogMessage ResizedCreated ''info'', LogMessage (Traceback ValueError) ''debug'', ClearLog,
          LogMessage CompressedCreated ''info'', LogMessage (Traceback IndexError) ''debug'']"]
  by (simp add: status_def log_message_def clear_log_def logs0_def)

text \<open>
  C10 as stated fails: after \<open>clear_log\<close> the snapshot is the sentinel line, which no call
  of \<open>log_message\<close> at any level produced.
\<close>

theorem polled_log_info_only_counterexample:
  "status (apply_log_ops [ClearLog] logs0) = [NewSession]
   \<and> \<not> set (status (apply_log_ops [ClearLog] logs0)) \<subseteq> {m. LogMessage m ''info'' \<in> set [ClearLog]}"
  by (simp add: status_def clear_log_def logs0_def)

subsection \<open>The tool invoker\<close>

lemma log_message_world:
  "ran (log_message m level s) = ran s"
  "saved (log_message m level s) = saved s"
  "made_dirs (log_message m level s) = made_dirs s"
  "unlinked (log_message m level s) = unlinked s"
  by (simp_all add: log_message_def)

lemma run_command_effects:
  "ran (snd (run_command env (c # args) pfx s)) = ran s @ [invoked env (c # args)]"
  "saved (snd (run_command env (c # args) pfx s)) = saved s"
  "made_dirs (snd (run_command env (c # args) pfx s)) = made_dirs s"
  "unlinked (snd (run_command env (c # args) pfx s)) = unlinked s"
  by (auto simp: run_command_def called_process_error_def invoked_def Let_def logE_def returnE_def
      raiseE_def thenE_logE thenE_raiseE log_message_world
      split: proc.splits exn.splits list.splits)

lemma run_command_result:
  "isl (fst (run_command env (c # args) pfx s)) = (\<not> succeeds env (c # args))"
  by (auto simp: run_command_def called_process_error_def invoked_def succeeds_def Let_def logE_def
      returnE_def raiseE_def thenE_logE thenE_raiseE
      split: proc.splits exn.splits list.splits)

lemma run_command_output:
  "run_command env (c # args) pfx s = (Inr out, s')
     \<Longrightarrow> \<exists>err. subprocess_run env (invoked env (c # args)) = Exited 0 out err"
  by (auto simp: run_command_def called_process_error_def invoked_def Let_def logE_def
      returnE_def raiseE_def thenE_logE thenE_raiseE
      split: proc.splits exn.splits list.splits if_splits)

subsection \<open>The format classifier\<close>

lemma has_video_stream_eq:
  "fst (has_video_stream env fp s) = probe_reports_video env fp"
  "ran (snd (has_video_stream env fp s)) = ran s @ [invoked env (probe_cmd env fp)]"
  "saved (snd (has_video_stream env fp s)) = saved s"
proof -
  let ?cmd = "probe_cmd env fp"
  obtain r s' where rc: "run_command env ?cmd PfxProbe s = (r, s')"
    by (cases "run_command env ?cmd PfxProbe s")
  have hv: "has_video_stream env fp s =
      (case r of Inr out \<Rightarrow> (contains out ''video'', s') | Inl e \<Rightarrow> (False, s'))"
    using rc by (simp add: has_video_stream_def probe_cmd_def Let_def split: sum.splits)
  have "ran (snd (run_command env ?cmd PfxProbe s)) = ran s @ [invoked env ?cmd]"
    and "saved (snd (run_command env ?cmd PfxProbe s)) = saved s"
    by (simp_all add: probe_cmd_def run_command_effects)
  then have eff: "ran s' = ran s @ [invoked env ?cmd]" "saved s' = saved s"
    using rc by simp_all
  show "ran (snd (has_video_stream env fp s)) = ran s @ [invoked env (probe_cmd env fp)]"
    using eff hv by (cases r) simp_all
  show "saved (snd (has_video_stream env fp s)) = saved s"
    using eff hv by (cases r) simp_all
  show "fst (has_video_stream env fp s) = probe_reports_video env fp"
  proof (cases r)
    case (Inl e)
    have "isl (fst (run_command env ?cmd PfxProbe s)) = (\<not> succeeds env ?cmd)"
      by (simp add: probe_cmd_def run_command_result)
    then have "\<not> succeeds env ?cmd" using rc Inl by simp
    then have "\<not> probe_reports_video env fp"
      by (auto simp: succeeds_def probe_reports_video_def split: proc.splits)
    then show ?thesis using hv Inl by simp
  next
    case (Inr out)
    have "\<exists>err. subprocess_run env (invoked env ?cmd) = Exited 0 out err"
      using rc Inr run_command_output [of env "FFPROBE_CMD env" _ PfxProbe s out s']
      by (simp add: probe_cmd_def)
    then show ?thesis using hv Inr by (auto simp: probe_reports_video_def)
  qed
qed

lemma formats_disjoint: "x \<in> set SUPPORTED_IMAGE_FORMATS \<Longrightarrow> x \<notin> set SUPPORTED_AV_FORMATS"
  by (auto simp: SUPPORTED_IMAGE_FORMATS_def SUPPORTED_AV_FORMATS_def)

text \<open>
  C6, as the code has it. A file whose lower-cased extension is a supported image
  extension goes to the image producer, and nothing is run: the state is unchanged. A file
  whose extension is a supported audio or video container extension is probed, exactly
  once, and goes to the video producer if and only if the probe was found, exited with
  code 0 and printed an output that holds the word \<open>video\<close>; in every other case (tool
  missing, non-zero exit, any other exception of the invocation, no \<open>video\<close> in the
  output) it goes to the audio-only producer. The output is searched, never parsed.
  Any other extension is unsupported and nothing is run.
\<close>

theorem classify_routes:
  "(lower (suffix fp) \<in> set SUPPORTED_IMAGE_FORMATS \<longrightarrow> classify env fp s = (Image, s))
   \<and> (lower (suffix fp) \<in> set SUPPORTED_AV_FORMATS \<longrightarrow>
        fst (classify env fp s) = (if probe_reports_video env fp then Video else AudioOnly)
        \<and> ran (snd (classify env fp s)) = ran s @ [invoked env (probe_cmd env fp)]
        \<and> saved (snd (classify env fp s)) = saved s)
   \<and> (lower (suffix fp) \<notin> set SUPPORTED_IMAGE_FORMATS
        \<and> lower (suffix fp) \<notin> set SUPPORTED_AV_FORMATS \<longrightarrow> classify env fp s = (Unsupported, s))"
proof -
  obtain b s' where hv: "has_video_stream env fp s = (b, s')"
    by (cases "has_video_stream env fp s")
  have b: "b = probe_reports_video env fp"
    and s': "ran s' = ran s @ [invoked env (probe_cmd env fp)]" "saved s' = saved s"
    using has_video_stream_eq [of env fp s] hv by simp_all
  show ?thesis
    using hv b s' formats_disjoint [of "lower (suffix fp)"]
    by (cases b) (auto simp: classify_def Let_def)
qed

lemma suffix_clip: "lower (suffix clip) = ''.mp4''"
  by code_simp

theorem classify_routes_witness:
  "lower (suffix clip) \<in> set SUPPORTED_AV_FORMATS
   \<and> fst (classify (sample_env all_succeed undecodable) clip world0) = AudioOnly
   \<and> ran (snd (classify (sample_env all_succeed undecodable) clip world0)) =
       [[''bin/ffprobe'', ''-v'', ''error'', ''-select_streams'', ''v:0'', ''-show_entries'',
         ''stream=codec_type'', ''-of'', ''json'', ''src/clip.MP4'']]"
proof -
  have av: "lower (suffix clip) \<in> set SUPPORTED_AV_FORMATS"
    by (simp add: suffix_clip SUPPORTED_AV_FORMATS_def)
  have nv: "\<not> probe_reports_video (sample_env all_succeed undecodable) clip"
    by (simp add: probe_reports_video_def sample_env_def all_succeed_def)
  show ?thesis
    using av nv classify_routes [of clip "sample_env all_succeed undecodable" world0]
    by (simp add: invoked_def probe_cmd_def sample_env_def clip_def str_path_def world0_def)
qed

text \<open>
  C6 as stated fails for a malformed probe output: an output that is no JSON object but
  holds the word \<open>video\<close>, with exit code 0, sends the file to the video producer.
\<close>

theorem classify_malformed_output_counterexample:
  "\<not> looks_like_json_object ''video''
   \<and> fst (classify (sample_env (\<lambda>command. Exited 0 ''video'' []) undecodable) clip world0) = Video"
proof -
  have "probe_reports_video (sample_env (\<lambda>command. Exited 0 ''video'' []) undecodable) clip"
    by (simp add: probe_reports_video_def sample_env_def)
  moreover have "lower (suffix clip) \<in> set SUPPORTED_AV_FORMATS"
    by (simp add: suffix_clip SUPPORTED_AV_FORMATS_def)
  moreover have "\<not> looks_like_json_object ''video''"
    by (simp add: looks_like_json_object_def strip_def isspace_char_def)
  ultimately show ?thesis
    using has_video_stream_eq(1) [of "sample_env (\<lambda>command. Exited 0 ''video'' []) undecodable" clip world0]
      formats_disjoint [of "lower (suffix clip)"]
    by (auto simp: classify_def Let_def split: prod.splits bool.splits)
qed

subsection \<open>The audio producer\<close>

lemma process_audio_only_ignores_settings:
  "process_audio_only env fp st s = process_audio_only env fp st' s"
  by (simp add: process_audio_only_def audio_body_def)

lemma process_audio_only_effects:
  assumes "OUTPUT_DIR env = Some out" and "mkdir env (joinpath out (stem fp)) = None"
  shows "ran (snd (process_audio_only env fp st s)) = ran s @ [audio_cmd env fp out]"
    and "saved (snd (process_audio_only env fp st s)) = saved s"
    and "made_dirs (snd (process_audio_only env fp st s)) = made_dirs s @ [joinpath out (stem fp)]"
    and "fst (process_audio_only env fp st s) = Inr ()"
proof -
  let ?cmd = "[FFMPEG_CMD env, ''-i'', str_path fp, ''-c:a'', ''libmp3lame'', ''-q:a'', ''2'',
               joinpath (joinpath out (stem fp)) (stem fp @ ''.mp3''), ''-y'']"
  let ?s1 = "(log_message (AudioProcessing (path_name fp)) ''info'' s)
               \<lparr>made_dirs := made_dirs s @ [joinpath out (stem fp)]\<rparr>"
  let ?run = "run_command env ?cmd (PfxConversion ''mp3'')"
  have body: "audio_body env fp st s =
     thenE ?run (logE (AudioCompleted (path_name fp)) ''info'') ?s1"
    using assms
    by (simp add: audio_body_def Let_def thenE_logE thenE_mkdirE bindE_returnE subscript_def
        AUDIO_CODECS_def log_message_world)
  obtain r s2 where rc: "?run ?s1 = (r, s2)" by (cases "?run ?s1")
  have "ran (snd (?run ?s1)) = ran s @ [audio_cmd env fp out]"
    and "saved (snd (?run ?s1)) = saved s"
    and "made_dirs (snd (?run ?s1)) = made_dirs s @ [joinpath out (stem fp)]"
    by (simp_all add: run_command_effects audio_cmd_def invoked_def log_message_world)
  then have eff: "ran s2 = ran s @ [audio_cmd env fp out]" "saved s2 = saved s"
      "made_dirs s2 = made_dirs s @ [joinpath out (stem fp)]"
    using rc by simp_all
  show "ran (snd (process_audio_only env fp st s)) = ran s @ [audio_cmd env fp out]"
    using rc eff
    by (cases r) (simp_all add: process_audio_only_def body thenE_apply thenE_logE logE_def
        log_message_world)
  show "saved (snd (process_audio_only env fp st s)) = saved s"
    using rc eff
    by (cases r) (simp_all add: process_audio_only_def body thenE_apply thenE_logE logE_def
        log_message_world)
  show "made_dirs (snd (process_audio_only env fp st s)) = made_dirs s @ [joinpath out (stem fp)]"
    using rc eff
    by (cases r) (simp_all add: process_audio_only_def body thenE_apply thenE_logE logE_def
        log_message_world)
  show "fst (process_audio_only env fp st s) = Inr ()"
    using rc
    by (cases r) (simp_all add: process_audio_only_def body thenE_apply thenE_logE logE_def)
qed

text \<open>
  C7. The audio-only producer never reads the user's settings: with any two settings it
  does the same. With the output directory configured and the asset's folder created, it
  hands exactly one command to the transcoder, whatever the tool then does: the input,
  the codec \<open>libmp3lame\<close>, quality tier \<open>2\<close>, and the output file \<open>base_name.mp3\<close> in the
  asset's folder under the output directory. It writes no file itself, creates that one
  folder, and no exception leaves it.
\<close>

theorem audio_only_one_mp3:
  assumes "OUTPUT_DIR env = Some out" and "mkdir env (joinpath out (stem fp)) = None"
  shows "process_audio_only env fp st s = process_audio_only env fp st' s
    \<and> ran (snd (process_audio_only env fp st s)) =
        ran s @ [[FFMPEG_CMD env, ''-loglevel'', ''error'', ''-i'', str_path fp, ''-c:a'',
                  ''libmp3lame'', ''-q:a'', ''2'',
                  joinpath (joinpath out (stem fp)) (stem fp @ ''.mp3''), ''-y'']]
    \<and> saved (snd (process_audio_only env fp st s)) = saved s
    \<and> made_dirs (snd (process_audio_only env fp st s)) = made_dirs s @ [joinpath out (stem fp)]
    \<and> fst (process_audio_only env fp st s) = Inr ()"
  using process_audio_only_effects [OF assms, of st s]
    process_audio_only_ignores_settings [of env fp st s st']
  by (simp add: audio_cmd_def)

lemma stem_clip: "stem clip = ''clip''"
  by code_simp

theorem audio_only_one_mp3_witness:
  "ran (snd (process_audio_only (sample_env all_succeed undecodable) clip sample_settings world0)) =
     [[''bin/ffmpeg'', ''-loglevel'', ''error'', ''-i'', ''src/clip.MP4'', ''-c:a'', ''libmp3lame'',
       ''-q:a'', ''2'', ''out/clip/clip.mp3'', ''-y'']]
   \<and> saved (snd (process_audio_only (sample_env all_succeed undecodable) clip sample_settings
        world0)) = []"
proof -
  have 1: "OUTPUT_DIR (sample_env all_succeed undecodable) = Some ''out''"
    by (simp add: sample_env_def)
  have 2: "mkdir (sample_env all_succeed undecodable) (joinpath ''out'' (stem clip)) = None"
    by (simp add: sample_env_def)
  have 3: "FFMPEG_CMD (sample_env all_succeed undecodable) = ''bin/ffmpeg''"
    by (simp add: sample_env_def)
  have 4: "str_path clip = ''src/clip.MP4''"
    by (simp add: clip_def str_path_def)
  have 5: "ran world0 = []" "saved world0 = []"
    by (simp_all add: world0_def)
  show ?thesis
    using audio_only_one_mp3 [OF 1 2, of sample_settings world0 sample_settings]
    by (simp add: 3 4 5 stem_clip joinpath_def)
qed

subsection \<open>Decimal rendering\<close>












subsection \<open>File names\<close>









subsection \<open>Custom sizes\<close>

lemma int_of_digit_str_converts:
  "isdigit t \<Longrightarrow>
     int_of_digit_str maxd t = (if converts maxd t then Inr (int (digits_value t)) else Inl ValueError)"
  by (auto simp: int_of_digit_str_def converts_def isdigit_def)

lemma custom_entries_eq:
  "custom_entries maxd ts d =
     (if list_all (converts maxd) (filter isdigit (map strip ts))
      then Inr (foldl (\<lambda>d t. dict_set d (fst (custom_entry t)) (snd (custom_entry t))) d
                  (filter isdigit (map strip ts)))
      else Inl ValueError)"
proof (induction ts arbitrary: d)
  case Nil
  then show ?case by simp
next
  case (Cons t ts)
  show ?case
  proof (cases "isdigit (strip t)")
    case False
    then show ?thesis using Cons.IH [of d] by simp
  next
    case True
    show ?thesis
    proof (cases "converts maxd (strip t)")
      case c: True
      then show ?thesis
        using True Cons.IH [of "dict_set d (''custom_'' @ strip t @ ''px'') (int (digits_value (strip t)))"]
        by (simp add: int_of_digit_str_converts custom_entry_def)
    next
      case c: False
      then show ?thesis using True by (simp add: int_of_digit_str_converts)
    qed
  qed
qed

lemma dict_set_keys: "fst ` set (dict_set d k v) = insert k (fst ` set d)"
proof (induction d)
  case Nil
  then show ?case by simp
next
  case (Cons p d)
  then show ?case by (cases p; cases "fst p = k") auto
qed

lemma dict_set_distinct: "distinct (map fst d) \<Longrightarrow> distinct (map fst (dict_set d k v))"
proof (induction d)
  case Nil
  then show ?case by simp
next
  case (Cons p d)
  then show ?case using dict_set_keys [of d k v] by (cases p) auto
qed

lemma dict_set_set:
  "\<forall>v'. (k, v') \<in> set d \<longrightarrow> v' = v \<Longrightarrow> set (dict_set d k v) = insert (k, v) (set d)"
proof (induction d)
  case Nil
  then show ?case by simp
next
  case (Cons p d)
  then show ?case by (cases p; cases "fst p = k") auto
qed

lemma custom_entry_key_inj: "fst (custom_entry t) = fst (custom_entry u) \<Longrightarrow> t = u"
  by (simp add: custom_entry_def)

lemma fold_custom_entries:
  assumes "set d = custom_entry ` T" and "distinct (map fst d)"
  shows "set (foldl (\<lambda>d t. dict_set d (fst (custom_entry t)) (snd (custom_entry t))) d ts)
           = custom_entry ` (T \<union> set ts)
         \<and> distinct (map fst (foldl (\<lambda>d t. dict_set d (fst (custom_entry t)) (snd (custom_entry t)))
              d ts))"
  using assms
proof (induction ts arbitrary: d T)
  case Nil
  then show ?case by simp
next
  case (Cons t ts)
  let ?d = "dict_set d (fst (custom_entry t)) (snd (custom_entry t))"
  have "\<forall>v'. (fst (custom_entry t), v') \<in> set d \<longrightarrow> v' = snd (custom_entry t)"
  proof (intro allI impI)
    fix v' assume "(fst (custom_entry t), v') \<in> set d"
    then obtain u where "u \<in> T" "(fst (custom_entry t), v') = custom_entry u"
      using Cons.prems(1) by auto
    then show "v' = snd (custom_entry t)"
      using custom_entry_key_inj [of t u] by (metis fst_conv snd_conv)
  qed
  then have "set ?d = insert (custom_entry t) (set d)"
    using dict_set_set [of "fst (custom_entry t)" d "snd (custom_entry t)"] by simp
  then have 1: "set ?d = custom_entry ` (insert t T)" using Cons.prems(1) by simp
  have 2: "distinct (map fst ?d)" using Cons.prems(2) by (rule dict_set_distinct)
  show ?case using Cons.IH [OF 1 2] by simp
qed

lemma get_custom_sizes_cases:
  "get_custom_sizes env str s =
     (if list_all (converts (int_max_str_digits env)) (digit_tokens str)
      then (Inr (foldl (\<lambda>d t. dict_set d (fst (custom_entry t)) (snd (custom_entry t))) []
                   (digit_tokens str)), s)
      else (Inr [], log_message InvalidCustomSize ''info'' s))"
proof (cases "str = []")
  case True
  then show ?thesis
    by (simp add: get_custom_sizes_def digit_tokens_def strip_def isdigit_def)
next
  case False
  then show ?thesis
    by (simp add: get_custom_sizes_def digit_tokens_def custom_entries_eq)
qed

lemma digit_tokens_examples:
  "digit_tokens ''50,200'' = [''50'', ''200'']"
  "digit_tokens ''50,abc'' = [''50'']"
  "digit_tokens superscript_two_field = [''50'', [CHR 0xB2]]"
  by code_simp+

lemma decimal_examples:
  "list_all isdecimal_char ''50''" "list_all isdecimal_char ''200''"
  "\<not> list_all isdecimal_char [CHR 0xB2]"
  "digits_value ''50'' = 50" "digits_value ''200'' = 200"
  by code_simp+

lemma decimal_chars:
  "isdecimal_char CHR ''0''" "isdecimal_char CHR ''2''" "isdecimal_char CHR ''5''"
  "\<not> isdecimal_char (CHR 0xB2)"
  by (simp_all add: isdecimal_char_def)

text \<open>
  C5, as the code has it. Parsing a custom-size field never raises. Each comma-separated
  token is stripped; a token on which \<open>isdigit\<close> fails is dropped without a log line.
  If \<open>int\<close> accepts every remaining token (it accepts any token of at most 640 decimal
  digits, whatever the interpreter's digit limit), the result holds exactly one entry per
  distinct token, \<open>custom_\{token\}px\<close> with the token's value, and nothing is logged.
  If \<open>int\<close> refuses one of them, the error is logged and the result is empty. With the
  preset \<open>thumb: 100\<close> selected, the field \<open>50,200\<close> gives three entries, and the
  field \<open>50,abc\<close> gives the one numeric entry and no log line.
\<close>

theorem custom_sizes_parsing:
  "\<not> isl (fst (get_custom_sizes env str s))
   \<and> (list_all (converts (int_max_str_digits env)) (digit_tokens str) \<longrightarrow>
        (\<exists>d. get_custom_sizes env str s = (Inr d, s)
             \<and> set d = custom_entry ` set (digit_tokens str) \<and> distinct (map fst d)))
   \<and> (\<not> list_all (converts (int_max_str_digits env)) (digit_tokens str) \<longrightarrow>
        get_custom_sizes env str s = (Inr [], log_message InvalidCustomSize ''info'' s))
   \<and> (list_all isdecimal_char t \<and> length t \<le> 640 \<and> (maxd = 0 \<or> 640 \<le> maxd) \<longrightarrow>
        converts maxd t)
   \<and> (int_max_str_digits env = 0 \<or> 640 \<le> int_max_str_digits env \<longrightarrow>
        plan_sizes env [(''thumb'', 100)]
          (st\<lparr>sizes_to_process := [''thumb''], custom_sizes := ''50,200''\<rparr>) s
          = (Inr [(''thumb'', 100), (''custom_50px'', 50), (''custom_200px'', 200)], s)
        \<and> get_custom_sizes env ''50,abc'' s = (Inr [(''custom_50px'', 50)], s))"
proof -
  let ?f = "\<lambda>d t. dict_set d (fst (custom_entry t)) (snd (custom_entry t))"
  have 1: "\<not> isl (fst (get_custom_sizes env str s))"
    by (simp add: get_custom_sizes_cases)
  have 2: "list_all (converts (int_max_str_digits env)) (digit_tokens str) \<longrightarrow>
        (\<exists>d. get_custom_sizes env str s = (Inr d, s)
             \<and> set d = custom_entry ` set (digit_tokens str) \<and> distinct (map fst d))"
    using fold_custom_entries [of "[]" "{}" "digit_tokens str"]
    by (simp add: get_custom_sizes_cases)
  have 3: "\<not> list_all (converts (int_max_str_digits env)) (digit_tokens str) \<longrightarrow>
        get_custom_sizes env str s = (Inr [], log_message InvalidCustomSize ''info'' s)"
    by (simp add: get_custom_sizes_cases)
  have 4: "list_all isdecimal_char t \<and> length t \<le> 640 \<and> (maxd = 0 \<or> 640 \<le> maxd) \<longrightarrow>
        converts maxd t"
    by (auto simp: converts_def)
  have 5: "plan_sizes env [(''thumb'', 100)]
          (st\<lparr>sizes_to_process := [''thumb''], custom_sizes := ''50,200''\<rparr>) s
          = (Inr [(''thumb'', 100), (''custom_50px'', 50), (''custom_200px'', 200)], s)
        \<and> get_custom_sizes env ''50,abc'' s = (Inr [(''custom_50px'', 50)], s)"
    if lim: "int_max_str_digits env = 0 \<or> 640 \<le> int_max_str_digits env"
  proof -
    have c: "converts (int_max_str_digits env) ''50''" "converts (int_max_str_digits env) ''200''"
      using lim by (auto simp: converts_def decimal_chars)
    have a: "get_custom_sizes env ''50,200'' s = (Inr [(''custom_50px'', 50), (''custom_200px'', 200)], s)"
      using c by (simp add: get_custom_sizes_cases digit_tokens_examples custom_entry_def
          decimal_examples decimal_chars)
    have b: "get_custom_sizes env ''50,abc'' s = (Inr [(''custom_50px'', 50)], s)"
      using c by (simp add: get_custom_sizes_cases digit_tokens_examples custom_entry_def
          decimal_examples decimal_chars)
    show ?thesis using a b
      by (simp add: plan_sizes_def bindE_def returnE_def selected_sizes_def)
  qed
  show ?thesis using 1 2 3 4 5 by blast
qed

theorem custom_sizes_parsing_witness:
  "get_custom_sizes (sample_env all_succeed undecodable) ''50,abc'' logs0
     = (Inr [(''custom_50px'', 50)], logs0)
   \<and> plan_sizes (sample_env all_succeed undecodable) [(''thumb'', 100)]
        (sample_settings\<lparr>sizes_to_process := [''thumb''], custom_sizes := ''50,200''\<rparr>) logs0
     = (Inr [(''thumb'', 100), (''custom_50px'', 50), (''custom_200px'', 200)], logs0)"
proof -
  have "int_max_str_digits (sample_env all_succeed undecodable) = 4300"
    by (simp add: sample_env_def)
  then show ?thesis
    using custom_sizes_parsing [of "sample_env all_succeed undecodable" "''50,abc''" logs0
        "''50''" 0 sample_settings]
    by simp
qed

text \<open>
  C5 as stated fails on a token that \<open>isdigit\<close> accepts and \<open>int\<close> refuses. In the field
  \<open>50,\<close> followed by the superscript two, the token \<open>50\<close> is a non-negative integer
  string and yet yields no entry, and the other token is not dropped silently: the whole
  result is empty and an error is logged.
\<close>

theorem custom_sizes_counterexample:
  "digit_tokens superscript_two_field = [''50'', [CHR 0xB2]]
   \<and> int_of_digit_str 4300 ''50'' = Inr 50
   \<and> get_custom_sizes (sample_env all_succeed undecodable) superscript_two_field logs0
       = (Inr [], log_message InvalidCustomSize ''info'' logs0)
   \<and> processing_log (log_message InvalidCustomSize ''info'' logs0) = [InvalidCustomSize]"
proof -
  have "int_max_str_digits (sample_env all_succeed undecodable) = 4300"
    by (simp add: sample_env_def)
  then have "get_custom_sizes (sample_env all_succeed undecodable) superscript_two_field logs0
       = (Inr [], log_message InvalidCustomSize ''info'' logs0)"
    by (simp add: get_custom_sizes_cases digit_tokens_examples converts_def decimal_chars)
  moreover have "int_of_digit_str 4300 ''50'' = Inr 50"
    by (simp add: int_of_digit_str_def decimal_examples decimal_chars)
  ultimately show ?thesis
    by (simp add: digit_tokens_examples log_message_def logs0_def)
qed

subsection \<open>The image producer: a source that cannot be decoded\<close>

lemma plan_sizes_result:
  "\<exists>sizes s'. plan_sizes env profile st s = (Inr sizes, s')
     \<and> (s' = s \<or> s' = log_message InvalidCustomSize ''info'' s)"
  by (simp add: plan_sizes_def bindE_def returnE_def get_custom_sizes_cases)

lemma decode_fails:
  assumes "\<And>m. isl (image_open env (str_path image_to_process) m)"
    and "decode_and_render env out fp st sizes image_to_process s = (r, s')"
  shows "saved s' = saved s \<and> made_dirs s' = made_dirs s \<and> ran s' = ran s
     \<and> ((r = Inr Returned
          \<and> processing_log s' = processing_log s @ [Unrecognized (path_name fp)])
        \<or> (isl r \<and> s' = s))"
proof -
  let ?mode = "if image_format st = ''png'' then ''RGBA'' else ''RGB''"
  obtain e where e: "image_open env (str_path image_to_process) ?mode = Inl e"
    using assms(1) [of ?mode]
    by (cases "image_open env (str_path image_to_process) ?mode") auto
  show ?thesis
    using assms(2) e
    by (cases e) (auto simp: decode_and_render_def Let_def log_message_def)
qed

lemma prepared_decode_fails:
  assumes "\<And>m. isl (image_open env (str_path fp) m)"
    and "\<And>m. isl (image_open env (str_path (with_suffix fp ''.temp.png'')) m)"
    and "with_prepared_image env fp (decode_and_render env out fp st sizes) s = (r, s')"
  shows "saved s' = saved s \<and> made_dirs s' = made_dirs s
     \<and> ((r = Inr Returned \<and> processing_log s' \<noteq> []
          \<and> last (processing_log s') = Unrecognized (path_name fp))
        \<or> isl r)"
proof (cases "lower (suffix fp) = ''.heic'' \<and> platform env = ''darwin''")
  case False
  then have "decode_and_render env out fp st sizes fp s = (r, s')"
    using assms(3) by (auto simp: with_prepared_image_def)
  then show ?thesis using decode_fails [OF assms(1)] by fastforce
next
  case True
  let ?temp = "with_suffix fp ''.temp.png''"
  let ?cmd = "[SIPS_CMD, ''-s'', ''format'', ''png'', str_path fp, ''--out'', str_path ?temp]"
  let ?s0 = "log_message (HeicConversion (path_name fp)) ''info'' s"
  obtain r1 s1 where rc: "run_command env ?cmd PfxSips ?s0 = (r1, s1)"
    by (cases "run_command env ?cmd PfxSips ?s0")
  have "saved (snd (run_command env ?cmd PfxSips ?s0)) = saved s"
    and "made_dirs (snd (run_command env ?cmd PfxSips ?s0)) = made_dirs s"
    by (simp_all add: SIPS_CMD_def run_command_effects log_message_world)
  then have s1: "saved s1 = saved s" "made_dirs s1 = made_dirs s" using rc by simp_all
  obtain r2 s2 where m: "thenE (logE (HeicConversion (path_name fp)) ''info'')
               (thenE (run_command env ?cmd PfxSips)
                 (decode_and_render env out fp st sizes ?temp)) s = (r2, s2)"
    by (cases "thenE (logE (HeicConversion (path_name fp)) ''info'')
               (thenE (run_command env ?cmd PfxSips)
                 (decode_and_render env out fp st sizes ?temp)) s")
  have m': "(case r1 of Inl e \<Rightarrow> (Inl e, s1)
             | Inr x \<Rightarrow> decode_and_render env out fp st sizes ?temp s1) = (r2, s2)"
    using m rc by (subst (asm) thenE_logE) (simp add: thenE_apply split: sum.splits)
  have 2: "saved s2 = saved s \<and> made_dirs s2 = made_dirs s
     \<and> ((r2 = Inr Returned \<and> processing_log s2 \<noteq> []
          \<and> last (processing_log s2) = Unrecognized (path_name fp))
        \<or> isl r2)"
  proof (cases r1)
    case (Inl e)
    then show ?thesis using m' s1 by auto
  next
    case (Inr out1)
    then have "decode_and_render env out fp st sizes ?temp s1 = (r2, s2)"
      using m' by simp
    then show ?thesis using decode_fails [OF assms(2)] s1
      by fastforce
  qed
  have "r = r2 \<and> (s' = s2 \<or> s' = s2\<lparr>unlinked := unlinked s2 @ [str_path ?temp]\<rparr>)"
    using assms(3) True m by (auto simp: with_prepared_image_def Let_def split: if_splits)
  then show ?thesis using 2 by auto
qed

text \<open>
  C3. When the output directory is configured and the image library cannot decode the
  asset's source (nor, for a HEIC source, the PNG it is converted to), in whatever pixel
  mode, \<open>process_image\<close> returns without an exception, writes no file and creates no
  directory, and the last line it leaves in the processing log is an error line about
  the file: the source was not recognised, could not be converted, or failed for the
  reason the line gives.
\<close>

theorem undecodable_image_writes_nothing:
  assumes "OUTPUT_DIR env = Some out"
    and "\<And>m. isl (image_open env (str_path fp) m)"
    and "\<And>m. isl (image_open env (str_path (with_suffix fp ''.temp.png'')) m)"
  shows "fst (process_image env fp profile st s) = Inr ()
    \<and> saved (snd (process_image env fp profile st s)) = saved s
    \<and> made_dirs (snd (process_image env fp profile st s)) = made_dirs s
    \<and> processing_log (snd (process_image env fp profile st s)) \<noteq> []
    \<and> error_line (path_name fp) (last (processing_log (snd (process_image env fp profile st s))))"
proof -
  obtain sizes s1 where p: "plan_sizes env profile st s = (Inr sizes, s1)"
    and s1: "s1 = s \<or> s1 = log_message InvalidCustomSize ''info'' s"
    using plan_sizes_result [of env profile st s] by blast
  let ?s2 = "log_message (ImageProcessing (path_name fp)) ''info''
               (log_message (SelectedDimensions (map fst sizes)) ''info'' s1)"
  have s2: "saved ?s2 = saved s" "made_dirs ?s2 = made_dirs s"
    using s1 by (auto simp: log_message_world)
  obtain r s3 where w: "with_prepared_image env fp (decode_and_render env out fp st sizes) ?s2 = (r, s3)"
    by (cases "with_prepared_image env fp (decode_and_render env out fp st sizes) ?s2")
  have 3: "saved s3 = saved s \<and> made_dirs s3 = made_dirs s
     \<and> ((r = Inr Returned \<and> processing_log s3 \<noteq> []
          \<and> last (processing_log s3) = Unrecognized (path_name fp))
        \<or> isl r)"
    using prepared_decode_fails [OF assms(2) assms(3) w] s2 by simp
  have body: "image_body env out fp profile st s =
      (case r of Inl e \<Rightarrow> (Inl e, s3)
       | Inr Returned \<Rightarrow> (Inr Returned, s3)
       | Inr Completed \<Rightarrow> (Inr Completed, log_message (Done (path_name fp)) ''info'' s3))"
    using p w
    by (auto simp: image_body_def bindE_def thenE_logE returnE_def split: sum.splits flow.splits)
  show ?thesis
  proof (cases r)
    case (Inr flow)
    then have "r = Inr Returned" using 3 by auto
    then show ?thesis using 3 body assms(1)
      by (simp add: process_image_def error_line_def)
  next
    case (Inl e)
    then show ?thesis using 3 body assms(1)
      by (cases e)
         (simp_all add: process_image_def error_line_def logE_def thenE_logE log_message_def)
  qed
qed

theorem undecodable_image_writes_nothing_witness:
  "fst (process_image (sample_env all_succeed undecodable) photo (image_sizes sample_config)
          sample_settings world0) = Inr ()
   \<and> saved (snd (process_image (sample_env all_succeed undecodable) photo
          (image_sizes sample_config) sample_settings world0)) = []
   \<and> made_dirs (snd (process_image (sample_env all_succeed undecodable) photo
          (image_sizes sample_config) sample_settings world0)) = []"
proof -
  have 1: "OUTPUT_DIR (sample_env all_succeed undecodable) = Some ''out''"
    by (simp add: sample_env_def)
  have 2: "\<And>p m. isl (image_open (sample_env all_succeed undecodable) p m)"
    by (simp add: sample_env_def undecodable_def)
  show ?thesis
    using undecodable_image_writes_nothing [OF 1 2 2, of photo "image_sizes sample_config"
        sample_settings world0]
    by (simp add: world0_def)
qed

subsection \<open>The video producer\<close>

lemma attempted_append:
  "attempted env (a @ b) =
     attempted env a @ (if list_all (succeeds env) a then attempted env b else [])"
  by (induction a) auto

lemma runs_returnE: "runs env (returnE x) []"
  by (simp add: runs_def returnE_def)

lemma runs_logE: "runs env (logE m level) []"
  by (simp add: runs_def logE_def log_message_world)

lemma runs_run_command: "runs env (run_command env (c # args) pfx) [c # args]"
  unfolding runs_def
  using run_command_effects [of env c args pfx] run_command_result [of env c args pfx]
  by simp

lemma runs_thenE:
  assumes "runs env m a" and "runs env n b"
  shows "runs env (thenE m n) (a @ b)"
  unfolding runs_def
proof
  fix s
  obtain r s' where ms: "m s = (r, s')" by (cases "m s")
  have m: "ran s' = ran s @ attempted env a" "made_dirs s' = made_dirs s" "saved s' = saved s"
      "isl r = (\<not> list_all (succeeds env) a)"
    using assms(1) ms unfolding runs_def by (metis fst_conv snd_conv)+
  show "ran (snd (thenE m n s)) = ran s @ attempted env (a @ b)
          \<and> made_dirs (snd (thenE m n s)) = made_dirs s \<and> saved (snd (thenE m n s)) = saved s
          \<and> isl (fst (thenE m n s)) = (\<not> list_all (succeeds env) (a @ b))"
  proof (cases r)
    case (Inl e)
    then show ?thesis using ms m by (simp add: thenE_apply attempted_append)
  next
    case (Inr x)
    have n: "ran (snd (n s')) = ran s' @ attempted env b" "made_dirs (snd (n s')) = made_dirs s'"
        "saved (snd (n s')) = saved s'" "isl (fst (n s')) = (\<not> list_all (succeeds env) b)"
      using assms(2) unfolding runs_def by blast+
    show ?thesis using Inr ms m n by (simp add: thenE_apply attempted_append)
  qed
qed

lemma runs_whenE: "runs env m a \<Longrightarrow> runs env (whenE b m) (if b then a else [])"
  by (simp add: whenE_def runs_returnE)

lemma runs_for_each:
  assumes "\<And>x. runs env (body x) [f x]"
  shows "runs env (for_each xs body) (map f xs)"
proof (induction xs)
  case Nil
  then show ?case by (simp add: runs_def)
next
  case (Cons x xs)
  have "for_each (x # xs) body = thenE (body x) (for_each xs body)"
    by (rule ext) (simp add: thenE_apply split: prod.splits sum.splits)
  then show ?case using runs_thenE [OF assms [of x] Cons.IH] by simp
qed

lemma runs_video_tier:
  "runs env (video_tier env fp folder fmt heights full preset crf compressed)
     (tier_cmds env fp folder fmt heights full preset crf compressed)"
proof -
  let ?vc = "get_or VIDEO_CODECS fmt ''libx264''"
  let ?ac = "if fmt = ''webm'' then ''libopus'' else ''aac''"
  let ?tag = "if compressed then ''_compressed'' else []"
  let ?pfx = "if compressed then PfxCompressed else PfxVersion"
  let ?f = "\<lambda>(size_label, height). scaled_cmd env fp ?vc ?ac preset crf
              (stem fp @ ''_'' @ size_label @ ?tag @ ''.'' @ fmt) height folder"
  let ?body = "\<lambda>(size_label, height).
                 thenE (run_command env
                          (scaled_cmd env fp ?vc ?ac preset crf
                             (stem fp @ ''_'' @ size_label @ ?tag @ ''.'' @ fmt) height folder)
                          (?pfx (str_int height @ ''p'')))
                       (returnE ())"
  let ?full = "full_size_cmd env fp ?vc ?ac preset crf (stem fp @ ''_full_size'' @ ?tag @ ''.'' @ fmt)
                 folder"
  have body: "runs env (?body x) [?f x]" for x
  proof (cases x)
    case (Pair size_label height)
    show ?thesis
      using runs_thenE [OF runs_run_command runs_returnE,
          of env "FFMPEG_CMD env" _ "?pfx (str_int height @ ''p'')" "()"]
      by (simp add: Pair scaled_cmd_def)
  qed
  have loop: "runs env (for_each heights ?body) (map ?f heights)"
    using body by (rule runs_for_each)
  have guarded: "runs env (whenE (heights \<noteq> []) (for_each heights ?body)) (map ?f heights)"
    using runs_whenE [OF loop, of "heights \<noteq> []"] by (cases heights) (simp_all add: runs_returnE whenE_def)
  have full: "runs env (thenE (run_command env ?full (?pfx ''full_size'')) (returnE ())) [?full]"
    using runs_thenE [OF runs_run_command runs_returnE,
        of env "FFMPEG_CMD env" _ "?pfx ''full_size''" "()"]
    by (simp add: full_size_cmd_def)
  have "runs env (thenE (whenE (heights \<noteq> []) (for_each heights ?body))
                    (whenE full (thenE (run_command env ?full (?pfx ''full_size'')) (returnE ()))))
          (map ?f heights @ (if full then [?full] else []))"
    using runs_thenE [OF guarded runs_whenE [OF full, of full]] .
  then show ?thesis by (simp add: video_tier_def tier_cmds_def Let_def)
qed

lemma runs_video_renditions:
  "runs env (video_renditions env fp folder st heights) (video_cmds env fp folder st heights)"
proof -
  let ?fmt = "video_format st"
  let ?full = "''full_size'' \<in> set (sizes_to_process st)"
  let ?std = "tier_cmds env fp folder ?fmt heights ?full
                (opt_or (video_standard_preset (cfg env)) ''medium'')
                (opt_or (video_standard_crf (cfg env)) 23) False"
  let ?max = "tier_cmds env fp folder ?fmt heights ?full
                (opt_or (video_max_preset (cfg env)) ''slow'')
                (opt_or (video_max_crf (cfg env)) 28) True"
  have poster: "runs env (run_command env (poster_cmd env fp folder) PfxPoster)
                  [poster_cmd env fp folder]"
    using runs_run_command [of env "FFMPEG_CMD env" _ PfxPoster] by (simp add: poster_cmd_def)
  have comp: "runs env
       (whenE (compression_mode st = ''max_compression'')
          (thenE (logE (CreatingCompressedVideo (opt_or (video_max_crf (cfg env)) 28)
                          (opt_or (video_max_preset (cfg env)) ''slow'')) ''info'')
             (video_tier env fp folder ?fmt heights ?full
                (opt_or (video_max_preset (cfg env)) ''slow'')
                (opt_or (video_max_crf (cfg env)) 28) True)))
       (if compression_mode st = ''max_compression'' then ?max else [])"
  proof -
    have "runs env
       (thenE (logE (CreatingCompressedVideo (opt_or (video_max_crf (cfg env)) 28)
                          (opt_or (video_max_preset (cfg env)) ''slow'')) ''info'')
             (video_tier env fp folder ?fmt heights ?full
                (opt_or (video_max_preset (cfg env)) ''slow'')
                (opt_or (video_max_crf (cfg env)) 28) True))
       ([] @ ?max)"
      by (rule runs_thenE [OF runs_logE runs_video_tier])
    then have "runs env
       (thenE (logE (CreatingCompressedVideo (opt_or (video_max_crf (cfg env)) 28)
                          (opt_or (video_max_preset (cfg env)) ''slow'')) ''info'')
             (video_tier env fp folder ?fmt heights ?full
                (opt_or (video_max_preset (cfg env)) ''slow'')
                (opt_or (video_max_crf (cfg env)) 28) True))
       ?max"
      by simp
    then show ?thesis by (rule runs_whenE)
  qed
  have tail: "runs env
       (thenE (whenE (compression_mode st = ''max_compression'')
          (thenE (logE (CreatingCompressedVideo (opt_or (video_max_crf (cfg env)) 28)
                          (opt_or (video_max_preset (cfg env)) ''slow'')) ''info'')
             (video_tier env fp folder ?fmt heights ?full
                (opt_or (video_max_preset (cfg env)) ''slow'')
                (opt_or (video_max_crf (cfg env)) 28) True)))
          (logE (VideoProcessed (path_name fp)) ''info''))
       (if compression_mode st = ''max_compression'' then ?max else [])"
    using runs_thenE [OF comp runs_logE] by simp
  have std: "runs env
       (thenE (logE (CreatingStandard (opt_or (video_standard_crf (cfg env)) 23)
                 (opt_or (video_standard_preset (cfg env)) ''medium'')) ''info'')
          (thenE (video_tier env fp folder ?fmt heights ?full
                    (opt_or (video_standard_preset (cfg env)) ''medium'')
                    (opt_or (video_standard_crf (cfg env)) 23) False)
             (thenE (whenE (compression_mode st = ''max_compression'')
                (thenE (logE (CreatingCompressedVideo (opt_or (video_max_crf (cfg env)) 28)
                                (opt_or (video_max_preset (cfg env)) ''slow'')) ''info'')
                   (video_tier env fp folder ?fmt heights ?full
                      (opt_or (video_max_preset (cfg env)) ''slow'')
                      (opt_or (video_max_crf (cfg env)) 28) True)))
                (logE (VideoProcessed (path_name fp)) ''info''))))
       (?std @ (if compression_mode st = ''max_compression'' then ?max else []))"
    using runs_thenE [OF runs_logE runs_thenE [OF runs_video_tier tail]] by simp
  show ?thesis
    using runs_thenE [OF poster std]
    by (simp add: video_renditions_def video_cmds_def Let_def)
qed

lemma attempted_all: "list_all (succeeds env) cmds \<Longrightarrow> attempted env cmds = map (invoked env) cmds"
  by (induction cmds) auto

lemma process_video_runs:
  assumes "OUTPUT_DIR env = Some out" and "mkdir env (joinpath out (stem fp)) = None"
    and "plan_sizes env profile st s = (Inr heights, s1)"
  shows "fst (process_video env fp profile st s) = Inr ()"
    and "ran (snd (process_video env fp profile st s)) =
           ran s @ attempted env (video_cmds env fp (joinpath out (stem fp)) st heights)"
    and "\<not> list_all (succeeds env) (video_cmds env fp (joinpath out (stem fp)) st heights) \<Longrightarrow>
           processing_log (snd (process_video env fp profile st s)) \<noteq> []
           \<and> video_error_line (path_name fp)
                (last (processing_log (snd (process_video env fp profile st s))))"
proof -
  let ?folder = "joinpath out (stem fp)"
  let ?cmds = "video_cmds env fp ?folder st heights"
  let ?s2 = "(log_message (VideoProcessing (path_name fp)) ''info''
               ((log_message (SelectedVideoSizes (map fst heights)) ''info'' s1)
                  \<lparr>made_dirs := made_dirs s1 @ [?folder]\<rparr>))"
  have s1: "s1 = s \<or> s1 = log_message InvalidCustomSize ''info'' s"
    using plan_sizes_result [of env profile st s] assms(3) by auto
  then have ran2: "ran ?s2 = ran s" by (auto simp: log_message_world)
  obtain r s3 where v: "video_renditions env fp ?folder st heights ?s2 = (r, s3)"
    by (cases "video_renditions env fp ?folder st heights ?s2")
  have body: "video_body env out fp profile st s = (r, s3)"
    using assms(2,3) v
    by (simp add: video_body_def bindE_def thenE_logE thenE_mkdirE log_message_world)
  have "ran (snd (video_renditions env fp ?folder st heights ?s2)) = ran ?s2 @ attempted env ?cmds"
    and "isl (fst (video_renditions env fp ?folder st heights ?s2))
           = (\<not> list_all (succeeds env) ?cmds)"
    using runs_video_renditions [of env fp ?folder st heights] unfolding runs_def by blast+
  then have r3: "ran s3 = ran s @ attempted env ?cmds" "isl r = (\<not> list_all (succeeds env) ?cmds)"
    using v ran2 by simp_all
  show "fst (process_video env fp profile st s) = Inr ()"
    using assms(1) body
    by (cases r) (simp_all add: process_video_def thenE_logE logE_def)
  show "ran (snd (process_video env fp profile st s)) = ran s @ attempted env ?cmds"
    using assms(1) body r3
    by (cases r) (simp_all add: process_video_def thenE_logE logE_def log_message_world)
  show "processing_log (snd (process_video env fp profile st s)) \<noteq> []
           \<and> video_error_line (path_name fp)
                (last (processing_log (snd (process_video env fp profile st s))))"
    if "\<not> list_all (succeeds env) ?cmds"
  proof -
    from that r3 obtain e where "r = Inl e" by (cases r) auto
    then show ?thesis using assms(1) body
      by (simp add: process_video_def thenE_logE logE_def log_message_def video_error_line_def)
  qed
qed

text \<open>
  C1, as the code has it. With the output directory configured, the asset's folder
  created and the sizes planned, \<open>process_video\<close> hands the planned invocations (poster,
  standard renditions, compressed renditions) to the transcoder in order and stops at the
  first one that fails: the invocations after it are not attempted. In particular, when
  the poster fails the poster command is the only one run. Every invocation is attempted
  exactly when none before it fails. A failure is logged as a video-processing error, the
  last line of the log, and no exception leaves \<open>process_video\<close>.
\<close>

theorem video_invocations_stop_at_first_failure:
  assumes "OUTPUT_DIR env = Some out" and "mkdir env (joinpath out (stem fp)) = None"
    and "plan_sizes env profile st s = (Inr heights, s1)"
  shows "fst (process_video env fp profile st s) = Inr ()
    \<and> ran (snd (process_video env fp profile st s)) =
         ran s @ attempted env (video_cmds env fp (joinpath out (stem fp)) st heights)
    \<and> (list_all (succeeds env) (video_cmds env fp (joinpath out (stem fp)) st heights) \<longrightarrow>
         ran (snd (process_video env fp profile st s)) =
           ran s @ map (invoked env) (video_cmds env fp (joinpath out (stem fp)) st heights))
    \<and> (\<not> succeeds env (poster_cmd env fp (joinpath out (stem fp))) \<longrightarrow>
         ran (snd (process_video env fp profile st s)) =
           ran s @ [invoked env (poster_cmd env fp (joinpath out (stem fp)))])
    \<and> (\<not> list_all (succeeds env) (video_cmds env fp (joinpath out (stem fp)) st heights) \<longrightarrow>
         processing_log (snd (process_video env fp profile st s)) \<noteq> []
         \<and> video_error_line (path_name fp)
              (last (processing_log (snd (process_video env fp profile st s)))))"
proof -
  let ?cmds = "video_cmds env fp (joinpath out (stem fp)) st heights"
  have 1: "\<not> succeeds env (poster_cmd env fp (joinpath out (stem fp))) \<longrightarrow>
       attempted env ?cmds = [invoked env (poster_cmd env fp (joinpath out (stem fp)))]"
    by (simp add: video_cmds_def Let_def)
  show ?thesis
    using process_video_runs [OF assms] 1 attempted_all [of env ?cmds] by auto
qed

lemma sample_plan:
  "plan_sizes (sample_env run opn) (heights_map sample_config) sample_settings world0
     = (Inr [(''720p'', 720)], world0)"
  by (simp add: plan_sizes_def bindE_def returnE_def get_custom_sizes_def sample_settings_def
      sample_config_def selected_sizes_def)

lemma sample_video_cmds:
  "video_cmds (sample_env run opn) clip (joinpath ''out'' (stem clip)) sample_settings
     [(''720p'', 720)] =
   [poster_cmd (sample_env run opn) clip ''out/clip'',
    scaled_cmd (sample_env run opn) clip ''libx264'' ''aac'' ''medium'' 23 ''clip_720p.mp4'' 720
      ''out/clip'',
    full_size_cmd (sample_env run opn) clip ''libx264'' ''aac'' ''medium'' 23 ''clip_full_size.mp4''
      ''out/clip'']"
  by (simp add: video_cmds_def tier_cmds_def Let_def sample_settings_def stem_clip joinpath_def
      get_or_def VIDEO_CODECS_def opt_or_def sample_env_def sample_config_def)

lemma str_int_examples: "str_int 720 = ''720''" "str_int 23 = ''23''" "str_int 28 = ''28''"
  by code_simp+

lemma poster_fails_succeeds:
  "\<not> succeeds (sample_env poster_fails opn) (poster_cmd (sample_env poster_fails opn) clip ''out/clip'')"
  "succeeds (sample_env poster_fails opn)
     (scaled_cmd (sample_env poster_fails opn) clip ''libx264'' ''aac'' ''medium'' 23
        ''clip_720p.mp4'' 720 ''out/clip'')"
  "succeeds (sample_env poster_fails opn)
     (full_size_cmd (sample_env poster_fails opn) clip ''libx264'' ''aac'' ''medium'' 23
        ''clip_full_size.mp4'' ''out/clip'')"
  by (simp_all add: succeeds_def invoked_def poster_cmd_def scaled_cmd_def full_size_cmd_def
      sample_env_def poster_fails_def str_int_examples str_path_def clip_def joinpath_def)

theorem video_invocations_stop_at_first_failure_witness:
  "ran (snd (process_video (sample_env poster_fails undecodable) clip (heights_map sample_config)
          sample_settings world0)) =
     [invoked (sample_env poster_fails undecodable)
        (poster_cmd (sample_env poster_fails undecodable) clip ''out/clip'')]
   \<and> fst (process_video (sample_env poster_fails undecodable) clip (heights_map sample_config)
          sample_settings world0) = Inr ()"
proof -
  have 1: "OUTPUT_DIR (sample_env poster_fails undecodable) = Some ''out''"
    by (simp add: sample_env_def)
  have 2: "mkdir (sample_env poster_fails undecodable) (joinpath ''out'' (stem clip)) = None"
    by (simp add: sample_env_def)
  have 3: "joinpath ''out'' (stem clip) = ''out/clip''"
    by (simp add: joinpath_def stem_clip)
  have 4: "ran world0 = []" by (simp add: world0_def)
  note t = video_invocations_stop_at_first_failure [OF 1 2 sample_plan]
  from t have a: "fst (process_video (sample_env poster_fails undecodable) clip
      (heights_map sample_config) sample_settings world0) = Inr ()"
    by (rule conjunct1)
  from t poster_fails_succeeds(1) [of undecodable]
  have b: "ran (snd (process_video (sample_env poster_fails undecodable) clip
      (heights_map sample_config) sample_settings world0)) =
     ran world0 @ [invoked (sample_env poster_fails undecodable)
        (poster_cmd (sample_env poster_fails undecodable) clip ''out/clip'')]"
    unfolding 3 by blast
  show ?thesis using a b by (simp add: 4)
qed

text \<open>
  C1 as stated fails: when the transcoder fails on the poster, the two renditions that are
  planned after it, and that the transcoder would complete, are never attempted.
\<close>

theorem poster_failure_aborts_renditions_counterexample:
  "ran (snd (process_video (sample_env poster_fails undecodable) clip (heights_map sample_config)
          sample_settings world0)) =
     [invoked (sample_env poster_fails undecodable)
        (poster_cmd (sample_env poster_fails undecodable) clip ''out/clip'')]
   \<and> length (video_cmds (sample_env poster_fails undecodable) clip ''out/clip'' sample_settings
        [(''720p'', 720)]) = 3
   \<and> list_all (succeeds (sample_env poster_fails undecodable))
        (tl (video_cmds (sample_env poster_fails undecodable) clip ''out/clip'' sample_settings
               [(''720p'', 720)]))"
proof -
  have 1: "OUTPUT_DIR (sample_env poster_fails undecodable) = Some ''out''"
    by (simp add: sample_env_def)
  have 2: "mkdir (sample_env poster_fails undecodable) (joinpath ''out'' (stem clip)) = None"
    by (simp add: sample_env_def)
  have 3: "joinpath ''out'' (stem clip) = ''out/clip''"
    by (simp add: joinpath_def stem_clip)
  have 4: "ran world0 = []" by (simp add: world0_def)
  have cmds: "video_cmds (sample_env poster_fails undecodable) clip ''out/clip'' sample_settings
     [(''720p'', 720)] =
   [poster_cmd (sample_env poster_fails undecodable) clip ''out/clip'',
    scaled_cmd (sample_env poster_fails undecodable) clip ''libx264'' ''aac'' ''medium'' 23
      ''clip_720p.mp4'' 720 ''out/clip'',
    full_size_cmd (sample_env poster_fails undecodable) clip ''libx264'' ''aac'' ''medium'' 23
      ''clip_full_size.mp4'' ''out/clip'']"
    using sample_video_cmds [of poster_fails undecodable] by (simp add: 3)
  show ?thesis
    using process_video_runs(2) [OF 1 2 sample_plan] poster_fails_succeeds [of undecodable]
    by (simp add: 3 4 cmds)
qed

subsection \<open>The job scheduler\<close>

lemma map_of_distinct_key:
  "distinct (map fst d) \<Longrightarrow> (k, v) \<in> set d \<Longrightarrow> map_of d k = Some v"
  by simp

























end
